theory Spec2Isabelle
  imports Main "HOL-Library.Word"
begin

section \<open>Machine types and faults\<close>

text \<open>
  The plugin is built for a 64-bit executable: \<^verbatim>\<open>uintptr_t\<close>, \<^verbatim>\<open>size_t\<close> and
  \<^verbatim>\<open>unsigned long long\<close> are 64-bit words whose arithmetic wraps, \<^verbatim>\<open>ptrdiff_t\<close> is the
  same word read in two's complement (adding it to a \<^verbatim>\<open>uintptr_t\<close> is word addition), and
  a pointer is the word of its address, \<open>0\<close> being \<^verbatim>\<open>nullptr\<close>.
\<close>

type_synonym uintptr_t = "64 word"
type_synonym size_t = "64 word"
type_synonym ptrdiff_t = "64 word"
type_synonym uint8_t = "8 word"

text \<open>
  Modelled from the spec: \<^verbatim>\<open>ASSERT(c)\<close> and \<^verbatim>\<open>HALT(msg)\<close> are macros of
  \<^verbatim>\<open>common/IErrors.h\<close>, which is not among the sources. By section 7 of the spec every
  fault is escalated to immediate, unconditional process termination: a failed assertion and
  a halt both end the process at once, and the asserted expression is always evaluated
  (several assertions of the source wrap the call of a write primitive). A fault carries
  the text of the asserted expression or the halt message, so that theorems can say which
  guard stopped the run.
\<close>

datatype fault = AssertFailed string | Halt string

section \<open>The hook types and their sizes\<close>

text \<open>
  \<^verbatim>\<open>RelocPatch.cpp\<close> declares \<^verbatim>\<open>HookType::t\<close> with the enumerators
  \<^verbatim>\<open>None, Jump5, Jump6, DirectJump, Call5, Call6, DirectCall, Nop\<close>. The enumerator
  \<^verbatim>\<open>None\<close> is written \<open>None_t\<close> here (\<open>None\<close> is the option constructor). A C++
  enumeration can also hold a value that names no enumerator (by a cast); \<open>Unlisted n\<close> is
  such a value, the one the \<^verbatim>\<open>default:\<close> label of a \<^verbatim>\<open>switch\<close> catches.
\<close>

datatype HookType =
  None_t | Jump5 | Jump6 | DirectJump | Call5 | Call6 | DirectCall | Nop | Unlisted nat

text \<open>\<^verbatim>\<open>HookType::Size\<close> of \<^verbatim>\<open>RelocPatch.cpp\<close> (lines 49-75).\<close>

fun Size :: "HookType \<Rightarrow> fault + size_t" where
  "Size None_t = Inr 0"
| "Size Nop = Inr 0"
| "Size Jump5 = Inr 5"
| "Size Call5 = Inr 5"
| "Size DirectCall = Inr 5"
| "Size DirectJump = Inr 5"
| "Size Jump6 = Inr 6"
| "Size Call6 = Inr 6"
| "Size (Unlisted n) = Inl (Halt ''Cannot get the size of an invalid hook type.'')"

text \<open>
  \<^verbatim>\<open>RelocPatch.h\<close> declares its own \<^verbatim>\<open>HookType::t\<close>, with the enumerators
  \<^verbatim>\<open>None, Branch5, Branch6, Call5, Call6, DirectCall, DirectJump, Nop\<close>; they carry the
  prefix \<open>h\<close> here. Its \<^verbatim>\<open>Size\<close> (lines 51-80) has no \<^verbatim>\<open>case None\<close>: that tag falls to
  \<^verbatim>\<open>default:\<close>.
\<close>

datatype hHookType =
  hNone | hBranch5 | hBranch6 | hCall5 | hCall6 | hDirectCall | hDirectJump | hNop
  | hUnlisted nat

definition kDirectCallPatchSize :: size_t where
  "kDirectCallPatchSize = 5"

definition kDirectJumpPatchSize :: size_t where
  "kDirectJumpPatchSize = 5"

fun hSize :: "hHookType \<Rightarrow> fault + size_t" where
  "hSize hNop = Inr 0"
| "hSize hBranch5 = Inr 5"
| "hSize hCall5 = Inr 5"
| "hSize hBranch6 = Inr 6"
| "hSize hCall6 = Inr 6"
| "hSize hDirectCall = Inr kDirectCallPatchSize"
| "hSize hDirectJump = Inr kDirectJumpPatchSize"
| "hSize hNone = Inl (Halt ''Cannot get the size of an invalid hook type.'')"
| "hSize (hUnlisted n) = Inl (Halt ''Cannot get the size of an invalid hook type.'')"

section \<open>Memory, collaborators and their calls\<close>

text \<open>
  What the patching code acts on: the bytes of the executable's code (\<open>code\<close>), the
  pointer-sized cells outside it that receive addresses (the return trampolines and the
  result pointers, \<open>cells\<close>, indexed by the cell's address), and the calls made to the
  collaborators and the stores made through pointers, in program order (\<open>trace\<close>). The
  cells are kept apart from the code bytes: the descriptors of the repository point them at
  variables of the plugin itself.
\<close>

datatype writer =
  Write5Branch | Write6Branch | Write5Call | Write6Call | SafeWriteCall | SafeWriteJump

datatype event =
  EvFindAddressById "64 word"
  | EvRVAScan string string ptrdiff_t ptrdiff_t size_t
  | EvStore uintptr_t uintptr_t
  | EvWrite writer uintptr_t uintptr_t
  | EvSafeMemSet uintptr_t uint8_t size_t

record world =
  code :: "uintptr_t \<Rightarrow> uint8_t"
  cells :: "uintptr_t \<Rightarrow> uintptr_t"
  trace :: "event list"

text \<open>
  The collaborators are not among the sources; they are parameters of the model.
  \<^item> \<open>FindAddressById\<close>: the loaded \<^verbatim>\<open>VersionDb\<close>, from an id to a \<^verbatim>\<open>void*\<close>
    (\<open>0\<close> when the id is unknown).
  \<^item> \<open>RVAScan\<close>: \<^verbatim>\<open>RVAScan<T>(name, sig, hook_offset, indirect_offset, instr_size).GetUIntPtr()\<close>;
    the scan reads the executable, so it may depend on the world; \<open>None\<close> is a scan that
    itself ends the process.
  \<^item> \<open>write_hook\<close>: the six write primitives (\<^verbatim>\<open>g_branchTrampoline.Write5Branch\<close>, ...,
    \<^verbatim>\<open>SafeWriteJump\<close>), each from the world, the address and the target to the boolean it
    returns and the code bytes it leaves behind. Nothing is assumed about the bytes.
\<close>

record env =
  FindAddressById :: "64 word \<Rightarrow> uintptr_t"
  RVAScan :: "world \<Rightarrow> string \<Rightarrow> string \<Rightarrow> ptrdiff_t \<Rightarrow> ptrdiff_t \<Rightarrow> size_t \<Rightarrow> uintptr_t option"
  write_hook :: "writer \<Rightarrow> world \<Rightarrow> uintptr_t \<Rightarrow> uintptr_t \<Rightarrow> bool \<times> (uintptr_t \<Rightarrow> uint8_t)"

definition kNop :: uint8_t where
  "kNop = 0x90"

text \<open>
  Modelled from the spec: \<^verbatim>\<open>SafeMemSet\<close> (\<^verbatim>\<open>SafeMemSet.h\<close> is not among the sources) is
  the bulk memory filler \<^verbatim>\<open>Fill(at, byteValue, count)\<close> of section 6: it sets the
  \<open>count\<close> bytes from \<open>at\<close> on to \<open>byteValue\<close> and returns nothing. The address \<open>a\<close> is one
  of those bytes when \<open>a - at < count\<close>, both read unsigned.
\<close>

definition fill :: "(uintptr_t \<Rightarrow> uint8_t) \<Rightarrow> uintptr_t \<Rightarrow> uint8_t \<Rightarrow> size_t \<Rightarrow> (uintptr_t \<Rightarrow> uint8_t)" where
  "fill c at v n = (\<lambda>a. if a - at < n then v else c a)"

definition SafeMemSet :: "uintptr_t \<Rightarrow> uint8_t \<Rightarrow> size_t \<Rightarrow> world \<Rightarrow> world" where
  "SafeMemSet at v n w =
     w\<lparr>code := fill (code w) at v n, trace := trace w @ [EvSafeMemSet at v n]\<rparr>"

text \<open>A store through a pointer, \<^verbatim>\<open>*p = v\<close>.\<close>

definition store :: "uintptr_t \<Rightarrow> uintptr_t \<Rightarrow> world \<Rightarrow> world" where
  "store p v w = w\<lparr>cells := (cells w)(p := v), trace := trace w @ [EvStore p v]\<rparr>"

text \<open>
  \<^verbatim>\<open>ASSERT(writer(at, target))\<close>: the primitive is called, and the process ends when it
  returns false. The world at the fault is the one the primitive left.
\<close>

definition ASSERT_write :: "env \<Rightarrow> writer \<Rightarrow> string \<Rightarrow> uintptr_t \<Rightarrow> uintptr_t \<Rightarrow> world \<Rightarrow> fault option \<times> world" where
  "ASSERT_write e k txt at tgt w =
     (let r = write_hook e k w at tgt;
          w' = w\<lparr>code := snd r, trace := trace w @ [EvWrite k at tgt]\<rparr>
      in if fst r then (None, w') else (Some (AssertFailed txt), w'))"

text \<open>Sequencing: the next statement runs only when the previous one did not fault.\<close>

definition next_do :: "fault option \<times> world \<Rightarrow> (world \<Rightarrow> fault option \<times> world) \<Rightarrow> fault option \<times> world" where
  "next_do r k = (case fst r of None \<Rightarrow> k (snd r) | Some f \<Rightarrow> r)"

section \<open>\<^verbatim>\<open>RelocPatch.cpp\<close>: code signatures and \<^verbatim>\<open>ApplyGamePatches\<close>\<close>

text \<open>
  \<^verbatim>\<open>struct CodeSignature\<close>; the fields carry the prefix \<open>cs_\<close>. The field
  \<^verbatim>\<open>known_offset\<close> exists in \<^verbatim>\<open>_DEBUG\<close> builds only and is left out, with the check that
  uses it.
\<close>

record CodeSignature =
  cs_name :: string
  cs_hook_type :: HookType
  cs_hook :: uintptr_t
  cs_id :: "64 word"
  cs_patch_size :: size_t
  cs_offset :: ptrdiff_t
  cs_return_trampoline :: uintptr_t
  cs_result :: uintptr_t

text \<open>The two constructors (lines 109-131 and 144-162).\<close>

definition CodeSignature_patch ::
  "string \<Rightarrow> HookType \<Rightarrow> uintptr_t \<Rightarrow> 64 word \<Rightarrow> size_t \<Rightarrow> uintptr_t \<Rightarrow> ptrdiff_t \<Rightarrow> CodeSignature" where
  "CodeSignature_patch nm ht hk i psz tramp off =
     \<lparr>cs_name = nm, cs_hook_type = ht, cs_hook = hk, cs_id = i, cs_patch_size = psz,
      cs_offset = off, cs_return_trampoline = tramp, cs_result = 0\<rparr>"

definition CodeSignature_object :: "string \<Rightarrow> 64 word \<Rightarrow> uintptr_t \<Rightarrow> CodeSignature" where
  "CodeSignature_object nm i res =
     \<lparr>cs_name = nm, cs_hook_type = None_t, cs_hook = 0, cs_id = i, cs_patch_size = 0,
      cs_offset = 0, cs_return_trampoline = 0, cs_result = res\<rparr>"

text \<open>"Install the trampoline, if necessary." (lines 800-805)\<close>

definition install_trampoline :: "CodeSignature \<Rightarrow> uintptr_t \<Rightarrow> world \<Rightarrow> fault option \<times> world" where
  "install_trampoline sg return_address w =
     (if cs_return_trampoline sg \<noteq> 0 then
        (if cs_hook_type sg = None_t
           then (Some (AssertFailed ''sig->hook_type != HookType::None''), w)
         else if cs_hook_type sg = Nop
           then (Some (AssertFailed ''sig->hook_type != HookType::Nop''), w)
         else (None, store (cs_return_trampoline sg) return_address w))
      else (None, w))"

text \<open>"Install the hook/result." (the \<^verbatim>\<open>switch\<close> of lines 807-835)\<close>

fun install_hook :: "env \<Rightarrow> CodeSignature \<Rightarrow> uintptr_t \<Rightarrow> HookType \<Rightarrow> world \<Rightarrow> fault option \<times> world" where
  "install_hook e sg real_address None_t w =
     (if cs_result sg = 0 then (Some (AssertFailed ''sig->result''), w)
      else (None, store (cs_result sg) real_address w))"
| "install_hook e sg real_address Jump5 w =
     ASSERT_write e Write5Branch ''g_branchTrampoline.Write5Branch(real_address, sig->hook)''
       real_address (cs_hook sg) w"
| "install_hook e sg real_address Jump6 w =
     ASSERT_write e Write6Branch ''g_branchTrampoline.Write6Branch(real_address, sig->hook)''
       real_address (cs_hook sg) w"
| "install_hook e sg real_address Call5 w =
     ASSERT_write e Write5Call ''g_branchTrampoline.Write5Call(real_address, sig->hook)''
       real_address (cs_hook sg) w"
| "install_hook e sg real_address Call6 w =
     ASSERT_write e Write6Call ''g_branchTrampoline.Write6Call(real_address, sig->hook)''
       real_address (cs_hook sg) w"
| "install_hook e sg real_address DirectCall w =
     ASSERT_write e SafeWriteCall ''SafeWriteCall(real_address, sig->hook)''
       real_address (cs_hook sg) w"
| "install_hook e sg real_address DirectJump w =
     ASSERT_write e SafeWriteJump ''SafeWriteJump(real_address, sig->hook)''
       real_address (cs_hook sg) w"
| "install_hook e sg real_address Nop w = (None, w)"
| "install_hook e sg real_address (Unlisted n) w =
     (Some (Halt ''Cannot install a hook with an invalid type''), w)"

text \<open>
  One iteration of the loop of \<^verbatim>\<open>ApplyGamePatches\<close> (lines 772-840), for the signature
  \<open>sg\<close>. The \<^verbatim>\<open>_MESSAGE\<close> lines write to the log file only and are left out.
\<close>

definition ApplyGamePatches_body :: "env \<Rightarrow> CodeSignature \<Rightarrow> world \<Rightarrow> fault option \<times> world" where
  "ApplyGamePatches_body e sg w0 =
     (let w = w0\<lparr>trace := trace w0 @ [EvFindAddressById (cs_id sg)]\<rparr>;
          addr = FindAddressById e (cs_id sg)
      in if addr = 0 then (Some (AssertFailed ''addr''), w)
         else
           let real_address = addr + cs_offset sg
           in (case Size (cs_hook_type sg) of
                 Inl f \<Rightarrow> (Some f, w)
               | Inr hook_size \<Rightarrow>
                   let return_address = real_address + hook_size
                   in if \<not> hook_size \<le> cs_patch_size sg
                        then (Some (AssertFailed ''hook_size <= sig->patch_size''), w)
                      else if (cs_hook sg = 0) \<noteq>
                              (cs_hook_type sg = None_t \<or> cs_hook_type sg = Nop)
                        then (Some (AssertFailed
                          ''!(sig->hook) == ((sig->hook_type == HookType::None) || (sig->hook_type == HookType::Nop))''), w)
                      else
                        next_do (install_trampoline sg return_address w) (\<lambda>w.
                        next_do (install_hook e sg real_address (cs_hook_type sg) w) (\<lambda>w.
                        (None, SafeMemSet return_address kNop (cs_patch_size sg - hook_size) w)))))"

text \<open>
  \<^verbatim>\<open>ApplyGamePatches\<close>: the loop over the table, from index 0 upwards. The table
  \<^verbatim>\<open>kGameSignatures\<close> is the argument \<open>sigs\<close>. A fault ends the process: the remaining
  signatures are not looked at, and the world stays as it was at the fault.
\<close>

fun ApplyGamePatches :: "env \<Rightarrow> CodeSignature list \<Rightarrow> world \<Rightarrow> fault option \<times> world" where
  "ApplyGamePatches e [] w = (None, w)"
| "ApplyGamePatches e (sg # sigs) w =
     (case ApplyGamePatches_body e sg w of
        (None, w') \<Rightarrow> ApplyGamePatches e sigs w'
      | (Some f, w') \<Rightarrow> (Some f, w'))"

section \<open>\<^verbatim>\<open>RelocPatch.h\<close>: patch signatures and \<^verbatim>\<open>RelocPatch<T>\<close>\<close>

text \<open>\<^verbatim>\<open>struct PatchSignature\<close>; the fields carry the prefix \<open>ps_\<close>.\<close>

record PatchSignature =
  ps_name :: string
  ps_hook_type :: hHookType
  ps_sig :: string
  ps_patch_size :: size_t
  ps_hook_offset :: ptrdiff_t
  ps_indirect_offset :: ptrdiff_t
  ps_instr_size :: size_t

text \<open>
  \<^verbatim>\<open>class RelocPatch<T>\<close>: the signature it points to and its two private members, with
  their initial values \<^verbatim>\<open>hook_done = false\<close> and \<^verbatim>\<open>real_address = 0\<close>. A value of the
  template's type \<open>T\<close> obtained by \<^verbatim>\<open>reinterpret_cast\<close> from an address is the address.
\<close>

record RelocPatch =
  sig :: PatchSignature
  hook_done :: bool
  real_address :: uintptr_t

definition RelocPatch_new :: "PatchSignature \<Rightarrow> RelocPatch" where
  "RelocPatch_new s = \<lparr>sig = s, hook_done = False, real_address = 0\<rparr>"

text \<open>
  A member function takes the object and the world and returns its value (or the fault
  that ended the process), the object and the world.
\<close>

type_synonym 'a member_fn = "RelocPatch \<Rightarrow> world \<Rightarrow> (fault + 'a) \<times> RelocPatch \<times> world"

text \<open>\<^verbatim>\<open>Resolve\<close> (lines 166-180).\<close>

definition Resolve :: "env \<Rightarrow> unit member_fn" where
  "Resolve e p w =
     (if real_address p \<noteq> 0 then (Inr (), p, w)
      else
        let w' = w\<lparr>trace := trace w @
                   [EvRVAScan (ps_name (sig p)) (ps_sig (sig p)) (ps_hook_offset (sig p))
                      (ps_indirect_offset (sig p)) (ps_instr_size (sig p))]\<rparr>
        in (case RVAScan e w (ps_name (sig p)) (ps_sig (sig p)) (ps_hook_offset (sig p))
                   (ps_indirect_offset (sig p)) (ps_instr_size (sig p)) of
              None \<Rightarrow> (Inl (Halt ''RVAScan''), p, w')
            | Some a \<Rightarrow>
                let p' = p\<lparr>real_address := a\<rparr>
                in if a = 0 then (Inl (AssertFailed ''real_address''), p', w')
                   else (Inr (), p', w')))"

text \<open>\<^verbatim>\<open>operator*\<close> and \<^verbatim>\<open>operator->\<close> (lines 143-154): the address of the data.\<close>

definition operator_star :: "env \<Rightarrow> uintptr_t member_fn" where
  "operator_star e p w =
     (case Resolve e p w of
        (Inl f, p', w') \<Rightarrow> (Inl f, p', w')
      | (Inr u, p', w') \<Rightarrow> (Inr (real_address p'), p', w'))"

definition operator_arrow :: "env \<Rightarrow> uintptr_t member_fn" where
  "operator_arrow e p w =
     (case Resolve e p w of
        (Inl f, p', w') \<Rightarrow> (Inl f, p', w')
      | (Inr u, p', w') \<Rightarrow> (Inr (real_address p'), p', w'))"

text \<open>\<^verbatim>\<open>operator T()\<close> (lines 159-161).\<close>

definition operator_T :: "env \<Rightarrow> uintptr_t member_fn" where
  "operator_T e p w = (Inr (real_address p), p, w)"

text \<open>\<^verbatim>\<open>GetUIntPtr\<close> (lines 185-189) and \<^verbatim>\<open>GetRetAddr\<close> (lines 194-198).\<close>

definition GetUIntPtr :: "env \<Rightarrow> uintptr_t member_fn" where
  "GetUIntPtr e p w =
     (case Resolve e p w of
        (Inl f, p', w') \<Rightarrow> (Inl f, p', w')
      | (Inr u, p', w') \<Rightarrow> (Inr (real_address p'), p', w'))"

definition GetRetAddr :: "env \<Rightarrow> uintptr_t member_fn" where
  "GetRetAddr e p w =
     (case Resolve e p w of
        (Inl f, p', w') \<Rightarrow> (Inl f, p', w')
      | (Inr u, p', w') \<Rightarrow>
          (case hSize (ps_hook_type (sig p')) of
             Inl f \<Rightarrow> (Inl f, p', w')
           | Inr s \<Rightarrow> (Inr (real_address p' + s), p', w')))"

text \<open>The \<^verbatim>\<open>switch\<close> of \<^verbatim>\<open>Apply\<close> (lines 216-239).\<close>

fun Apply_switch :: "env \<Rightarrow> uintptr_t \<Rightarrow> uintptr_t \<Rightarrow> hHookType \<Rightarrow> world \<Rightarrow> fault option \<times> world" where
  "Apply_switch e ra target hBranch5 w =
     ASSERT_write e Write5Branch ''g_branchTrampoline.Write5Branch(real_address, target)'' ra target w"
| "Apply_switch e ra target hBranch6 w =
     ASSERT_write e Write6Branch ''g_branchTrampoline.Write6Branch(real_address, target)'' ra target w"
| "Apply_switch e ra target hCall5 w =
     ASSERT_write e Write5Call ''g_branchTrampoline.Write5Call(real_address, target)'' ra target w"
| "Apply_switch e ra target hCall6 w =
     ASSERT_write e Write6Call ''g_branchTrampoline.Write6Call(real_address, target)'' ra target w"
| "Apply_switch e ra target hDirectCall w =
     ASSERT_write e SafeWriteCall ''SafeWriteCall(real_address, target)'' ra target w"
| "Apply_switch e ra target hDirectJump w =
     ASSERT_write e SafeWriteJump ''SafeWriteJump(real_address, target)'' ra target w"
| "Apply_switch e ra target hNop w = (None, w)"
| "Apply_switch e ra target hNone w =
     (Some (Halt ''Cannot install a hook with an invalid type''), w)"
| "Apply_switch e ra target (hUnlisted n) w =
     (Some (Halt ''Cannot install a hook with an invalid type''), w)"

text \<open>\<^verbatim>\<open>Apply\<close> (lines 205-247).\<close>

definition Apply :: "env \<Rightarrow> uintptr_t \<Rightarrow> unit member_fn" where
  "Apply e target p w =
     (case Resolve e p w of
        (Inl f, p1, w1) \<Rightarrow> (Inl f, p1, w1)
      | (Inr u, p1, w1) \<Rightarrow>
          (case hSize (ps_hook_type (sig p1)) of
             Inl f \<Rightarrow> (Inl f, p1, w1)
           | Inr hook_size \<Rightarrow>
               if hook_done p1 then (Inl (AssertFailed ''!hook_done''), p1, w1)
               else if \<not> hook_size \<le> ps_patch_size (sig p1)
                 then (Inl (AssertFailed ''hook_size <= sig->patch_size''), p1, w1)
               else
                 (case Apply_switch e (real_address p1) target (ps_hook_type (sig p1)) w1 of
                    (Some f, w2) \<Rightarrow> (Inl f, p1, w2)
                  | (None, w2) \<Rightarrow>
                      (case GetRetAddr e p1 w2 of
                         (Inl f, p2, w3) \<Rightarrow> (Inl f, p2, w3)
                       | (Inr ret, p2, w3) \<Rightarrow>
                           (Inr (), p2\<lparr>hook_done := True\<rparr>,
                            SafeMemSet ret kNop (ps_patch_size (sig p2) - hook_size) w3)))))"

text \<open>
  A client of one \<^verbatim>\<open>RelocPatch\<close> object: any sequence of calls of its public members, run
  until one faults.
\<close>

datatype call = CallResolve | CallStar | CallArrow | CallConv | CallGetUIntPtr | CallGetRetAddr
  | CallApply uintptr_t

definition forget :: "(fault + 'a) \<times> RelocPatch \<times> world \<Rightarrow> fault option \<times> RelocPatch \<times> world" where
  "forget r = (case r of (Inl f, p, w) \<Rightarrow> (Some f, p, w) | (Inr v, p, w) \<Rightarrow> (None, p, w))"

fun invoke :: "env \<Rightarrow> call \<Rightarrow> RelocPatch \<Rightarrow> world \<Rightarrow> fault option \<times> RelocPatch \<times> world" where
  "invoke e CallResolve p w = forget (Resolve e p w)"
| "invoke e CallStar p w = forget (operator_star e p w)"
| "invoke e CallArrow p w = forget (operator_arrow e p w)"
| "invoke e CallConv p w = forget (operator_T e p w)"
| "invoke e CallGetUIntPtr p w = forget (GetUIntPtr e p w)"
| "invoke e CallGetRetAddr p w = forget (GetRetAddr e p w)"
| "invoke e (CallApply target) p w = forget (Apply e target p w)"

fun run :: "env \<Rightarrow> call list \<Rightarrow> RelocPatch \<Rightarrow> world \<Rightarrow> fault option \<times> RelocPatch \<times> world" where
  "run e [] p w = (None, p, w)"
| "run e (c # cs) p w =
     (case invoke e c p w of
        (None, p', w') \<Rightarrow> run e cs p' w'
      | (Some f, p', w') \<Rightarrow> (Some f, p', w'))"

text \<open>The number of scans in a trace.\<close>

fun is_scan :: "event \<Rightarrow> bool" where
  "is_scan (EvRVAScan nm s a b c) = True"
| "is_scan ev = False"

definition scans :: "event list \<Rightarrow> nat" where
  "scans tr = length (filter is_scan tr)"

text \<open>The calls of a write primitive in a trace.\<close>

fun is_write :: "event \<Rightarrow> bool" where
  "is_write (EvWrite k a t) = True"
| "is_write ev = False"

text \<open>The calls of the bulk filler in a trace, and the ids looked up, in order.\<close>

fun is_memset :: "event \<Rightarrow> bool" where
  "is_memset (EvSafeMemSet a v n) = True"
| "is_memset ev = False"

fun lookup_ids :: "event list \<Rightarrow> 64 word list" where
  "lookup_ids [] = []"
| "lookup_ids (EvFindAddressById i # tr) = i # lookup_ids tr"
| "lookup_ids (ev # tr) = lookup_ids tr"

text \<open>
  The address a code signature resolves to: \<^verbatim>\<open>real_address\<close> of line 783, the address
  the database gives for the id, plus the offset.
\<close>

definition resolved_address :: "env \<Rightarrow> CodeSignature \<Rightarrow> uintptr_t" where
  "resolved_address e sg = FindAddressById e (cs_id sg) + cs_offset sg"

text \<open>
  The reference for what the loop keeps, stated from the loop body alone: the world after
  each signature of \<open>xs\<close> has been installed by one iteration, in order, every iteration
  starting from the world the one before left; \<open>None\<close> when one of them faults.
\<close>

fun installed_in_order :: "env \<Rightarrow> CodeSignature list \<Rightarrow> world \<Rightarrow> world option" where
  "installed_in_order e [] w = Some w"
| "installed_in_order e (s # xs) w =
     (case ApplyGamePatches_body e s w of
        (None, w') \<Rightarrow> installed_in_order e xs w'
      | (Some f, w') \<Rightarrow> None)"

section \<open>Concrete inputs\<close>

text \<open>
  Collaborators for the examples: a database that knows the ids of the table, each at a
  fixed address; a scanner that finds every pattern at \<open>0x2000\<close>; write primitives that
  succeed and leave the code bytes alone (\<open>good_env\<close>) or that all fail (\<open>bad_env\<close>).
\<close>

definition db0 :: "64 word \<Rightarrow> uintptr_t" where
  "db0 i = (if i = 52538 then 0x1000 else if i = 52527 then 0x3000
            else if i = 403521 then 0x5000 else if i = 51917 then 0x7000 else 0)"

definition good_env :: env where
  "good_env = \<lparr>FindAddressById = db0, RVAScan = (\<lambda>w nm s a b c. Some 0x2000),
     write_hook = (\<lambda>k w a t. (True, code w))\<rparr>"

definition bad_env :: env where
  "bad_env = \<lparr>FindAddressById = db0, RVAScan = (\<lambda>w nm s a b c. Some 0x2000),
     write_hook = (\<lambda>k w a t. (False, code w))\<rparr>"

definition w_init :: world where
  "w_init = \<lparr>code = (\<lambda>a. 0xCC), cells = (\<lambda>a. 0), trace = []\<rparr>"

text \<open>
  Signatures of the table \<^verbatim>\<open>kGameSignatures\<close>, the addresses of the wrappers and of the
  variables they point to being chosen here: \<^verbatim>\<open>kThePlayer_ObjectSig\<close>,
  \<^verbatim>\<open>kModifyPerkPool_PatchSig\<close>, \<^verbatim>\<open>kHideLegendaryButton_PatchSig\<close> and
  \<^verbatim>\<open>kAllowAllAttrImproveCarryWeight_PatchSig\<close>.
\<close>

definition kThePlayer_ObjectSig :: CodeSignature where
  "kThePlayer_ObjectSig = CodeSignature_object ''g_thePlayer'' 403521 0x9000"

definition kModifyPerkPool_PatchSig :: CodeSignature where
  "kModifyPerkPool_PatchSig =
     CodeSignature_patch ''ModifyPerkPool'' Jump6 0xA000 52538 7 0 0x62"

definition kHideLegendaryButton_PatchSig :: CodeSignature where
  "kHideLegendaryButton_PatchSig =
     CodeSignature_patch ''HideLegendaryButton'' Jump6 0xB000 52527 0x1e 0x9100 0x153"

definition kAllowAllAttrImproveCarryWeight_PatchSig :: CodeSignature where
  "kAllowAllAttrImproveCarryWeight_PatchSig =
     CodeSignature_patch ''AllowAllAttrImproveCarryWeight'' Nop 0 51917 2 0 0x9a"

text \<open>A patch signature for \<^verbatim>\<open>RelocPatch<T>\<close>, in the shape of the header's constructor.\<close>

definition example_PatchSig :: "hHookType \<Rightarrow> size_t \<Rightarrow> PatchSignature" where
  "example_PatchSig ht psz =
     \<lparr>ps_name = ''Example'', ps_hook_type = ht, ps_sig = ''48 85 C0'', ps_patch_size = psz,
      ps_hook_offset = 0, ps_indirect_offset = 0, ps_instr_size = 0\<rparr>"

section \<open>Facts about the model\<close>

lemmas example_defs = good_env_def bad_env_def db0_def w_init_def example_PatchSig_def
  RelocPatch_new_def kThePlayer_ObjectSig_def kModifyPerkPool_PatchSig_def
  kHideLegendaryButton_PatchSig_def kAllowAllAttrImproveCarryWeight_PatchSig_def
  CodeSignature_patch_def CodeSignature_object_def

subsection \<open>The filler\<close>

lemma fill_in: "a - at < n \<Longrightarrow> fill c at v n a = v"
  by (simp add: fill_def)

lemma fill_out: "\<not> a - at < n \<Longrightarrow> fill c at v n a = c a"
  by (simp add: fill_def)

lemma fill_zero: "fill c at v 0 = c"
  by (simp add: fill_def)

lemma lookup_ids_append: "lookup_ids (xs @ ys) = lookup_ids xs @ lookup_ids ys"
  by (induction xs rule: lookup_ids.induct) simp_all

subsection \<open>\<^verbatim>\<open>RelocPatch<T>\<close>: a resolved object\<close>

lemma Resolve_resolved: "real_address p \<noteq> 0 \<Longrightarrow> Resolve e p w = (Inr (), p, w)"
  by (simp add: Resolve_def)

lemma Resolve_frame:
  assumes "Resolve e p w = (r, p', w')"
  shows "sig p' = sig p" and "hook_done p' = hook_done p" and "code w' = code w"
    and "cells w' = cells w" and "r = Inr u \<Longrightarrow> real_address p' \<noteq> 0"
    and "real_address p \<noteq> 0 \<Longrightarrow> real_address p' = real_address p"
  using assms by (auto simp: Resolve_def Let_def split: option.splits if_splits)

lemma Resolve_trace:
  assumes "Resolve e p w = (r, p', w')"
  shows "trace w' = trace w @
           (if real_address p \<noteq> 0 then []
            else [EvRVAScan (ps_name (sig p)) (ps_sig (sig p)) (ps_hook_offset (sig p))
                    (ps_indirect_offset (sig p)) (ps_instr_size (sig p))])"
  using assms by (auto simp: Resolve_def Let_def split: option.splits if_splits)

lemma GetRetAddr_resolved:
  "real_address p \<noteq> 0 \<Longrightarrow>
     GetRetAddr e p w =
       (case hSize (ps_hook_type (sig p)) of
          Inl f \<Rightarrow> (Inl f, p, w)
        | Inr s \<Rightarrow> (Inr (real_address p + s), p, w))"
  by (simp add: GetRetAddr_def Resolve_resolved)

lemma Apply_switch_frame:
  assumes "Apply_switch e ra t ht w = (r, w')"
  shows "cells w' = cells w" and "scans (trace w') = scans (trace w)"
    and "ht = hNop \<Longrightarrow> w' = w"
  using assms by (cases ht; auto simp: ASSERT_write_def Let_def scans_def split: if_splits)+

text \<open>On a resolved object \<^verbatim>\<open>Apply\<close> neither scans nor changes the address.\<close>

lemma Apply_resolved:
  assumes "real_address p \<noteq> 0"
  shows "Apply e t p w =
     (case hSize (ps_hook_type (sig p)) of
        Inl f \<Rightarrow> (Inl f, p, w)
      | Inr h \<Rightarrow>
          if hook_done p then (Inl (AssertFailed ''!hook_done''), p, w)
          else if \<not> h \<le> ps_patch_size (sig p)
            then (Inl (AssertFailed ''hook_size <= sig->patch_size''), p, w)
          else
            (case Apply_switch e (real_address p) t (ps_hook_type (sig p)) w of
               (Some f, w2) \<Rightarrow> (Inl f, p, w2)
             | (None, w2) \<Rightarrow>
                 (Inr (), p\<lparr>hook_done := True\<rparr>,
                  SafeMemSet (real_address p + h) kNop (ps_patch_size (sig p) - h) w2)))"
  using assms
  by (simp add: Apply_def Resolve_resolved GetRetAddr_resolved
      split: sum.splits option.splits prod.splits)

lemma Apply_via_Resolve:
  "Apply e t p w =
     (case Resolve e p w of
        (Inl f, p1, w1) \<Rightarrow> (Inl f, p1, w1)
      | (Inr u, p1, w1) \<Rightarrow> Apply e t p1 w1)"
proof (cases "Resolve e p w")
  case (fields r p1 w1)
  show ?thesis
  proof (cases r)
    case (Inl f)
    with fields show ?thesis by (simp add: Apply_def)
  next
    case (Inr u)
    with fields have nz: "real_address p1 \<noteq> 0" by (auto dest: Resolve_frame(5))
    have "Resolve e p1 w1 = (Inr (), p1, w1)" using nz by (rule Resolve_resolved)
    with fields Inr show ?thesis by (simp add: Apply_def)
  qed
qed

lemma Apply_success:
  assumes "Apply e t p w = (Inr u, p', w')"
  shows "hook_done p'" and "real_address p' \<noteq> 0" and "sig p' = sig p"
    and "\<exists>h. hSize (ps_hook_type (sig p)) = Inr h"
proof -
  obtain r p1 w1 where R: "Resolve e p w = (r, p1, w1)" by (cases "Resolve e p w")
  with assms obtain v where r: "r = Inr v"
    by (cases r) (auto simp: Apply_via_Resolve)
  from R r have nz: "real_address p1 \<noteq> 0" and s: "sig p1 = sig p"
    by (auto dest: Resolve_frame)
  from assms R r have A: "Apply e t p1 w1 = (Inr u, p', w')"
    by (simp add: Apply_via_Resolve)
  from A nz show "hook_done p'" "real_address p' \<noteq> 0"
    by (auto simp: Apply_resolved split: sum.splits if_splits option.splits prod.splits)
  from A nz s show "sig p' = sig p"
    by (auto simp: Apply_resolved split: sum.splits if_splits option.splits prod.splits)
  from A nz s show "\<exists>h. hSize (ps_hook_type (sig p)) = Inr h"
    by (auto simp: Apply_resolved split: sum.splits if_splits option.splits prod.splits)
qed

text \<open>A first \<^verbatim>\<open>Apply\<close> of a 5-byte branch over a 7-byte window, evaluated.\<close>

lemma example_Apply:
  "Apply good_env 0xA000 (RelocPatch_new (example_PatchSig hBranch5 7)) w_init =
     (Inr (),
      \<lparr>sig = example_PatchSig hBranch5 7, hook_done = True, real_address = 0x2000\<rparr>,
      \<lparr>code = fill (\<lambda>a. 0xCC) 0x2005 0x90 2, cells = (\<lambda>a. 0),
       trace = [EvRVAScan ''Example'' ''48 85 C0'' 0 0 0, EvWrite Write5Branch 0x2000 0xA000,
                EvSafeMemSet 0x2005 0x90 2]\<rparr>)"
  by (simp add: Apply_def Resolve_def GetRetAddr_def ASSERT_write_def SafeMemSet_def kNop_def
      Let_def example_defs)

subsection \<open>\<^verbatim>\<open>RelocPatch<T>\<close>: scans over any sequence of calls\<close>

lemma scans_append: "scans (xs @ ys) = scans xs + scans ys"
  by (simp add: scans_def)

lemma scans_snoc_memset: "scans (tr @ [EvSafeMemSet a v n]) = scans tr"
  by (simp add: scans_def)

lemma Resolve_scans:
  assumes "Resolve e p w = (r, p', w')"
  shows "scans (trace w') = scans (trace w) + (if real_address p \<noteq> 0 then 0 else 1)"
  using Resolve_trace [OF assms] by (simp add: scans_def)

lemma forget_Inr: "forget (Inr v, p, w) = (None, p, w)"
  and forget_Inl: "forget (Inl f, p, w) = (Some f, p, w)"
  by (simp_all add: forget_def)

lemma Apply_resolved_frame:
  assumes "real_address p \<noteq> 0" and "Apply e t p w = (r, p', w')"
  shows "real_address p' = real_address p" and "sig p' = sig p"
    and "scans (trace w') = scans (trace w)"
proof -
  show "real_address p' = real_address p" "sig p' = sig p"
    using assms
    by (auto simp: Apply_resolved split: sum.splits if_splits option.splits prod.splits)
  show "scans (trace w') = scans (trace w)"
    using assms
    by (auto simp: Apply_resolved SafeMemSet_def scans_snoc_memset
        dest: Apply_switch_frame(2) split: sum.splits if_splits option.splits prod.splits)
qed

lemma invoke_resolved:
  assumes "real_address p \<noteq> 0" and "invoke e c p w = (r, p', w')"
  shows "real_address p' = real_address p \<and> scans (trace w') = scans (trace w)"
proof (cases c)
  case (CallApply t)
  with assms(2) obtain r0 where "Apply e t p w = (r0, p', w')"
    by (cases "Apply e t p w") (auto simp: forget_def split: sum.splits)
  from Apply_resolved_frame(1,3) [OF assms(1) this] show ?thesis by simp
next
  case CallGetRetAddr
  with assms show ?thesis
    by (auto simp: GetRetAddr_resolved forget_def split: sum.splits)
qed (use assms in \<open>auto simp: operator_star_def operator_arrow_def operator_T_def
       GetUIntPtr_def Resolve_resolved forget_def\<close>)

lemma run_resolved:
  assumes "real_address p \<noteq> 0" and "run e cs p w = (r, p', w')"
  shows "real_address p' = real_address p \<and> scans (trace w') = scans (trace w)"
  using assms
proof (induction cs arbitrary: p w)
  case Nil
  then show ?case by simp
next
  case (Cons c cs)
  obtain r1 p1 w1 where I: "invoke e c p w = (r1, p1, w1)" by (cases "invoke e c p w")
  from invoke_resolved [OF Cons.prems(1) I]
  have k: "real_address p1 = real_address p" "scans (trace w1) = scans (trace w)" by simp_all
  show ?case
  proof (cases r1)
    case None
    with I Cons.prems(2) have "run e cs p1 w1 = (r, p', w')" by simp
    with Cons.IH [of p1 w1] k Cons.prems(1) show ?thesis by simp
  next
    case (Some f)
    with I Cons.prems(2) k show ?thesis by simp
  qed
qed

text \<open>Every member but the conversion resolves first.\<close>

lemma invoke_via_Resolve:
  assumes "c \<noteq> CallConv" and "Resolve e p w = (r, p1, w1)"
  shows "invoke e c p w =
           (case r of Inl f \<Rightarrow> (Some f, p1, w1) | Inr u \<Rightarrow> invoke e c p1 w1)"
proof (cases r)
  case (Inl f)
  with assms show ?thesis
    by (cases c) (simp_all add: operator_star_def operator_arrow_def GetUIntPtr_def
        GetRetAddr_def Apply_def forget_def)
next
  case (Inr u)
  with assms(2) have nz: "real_address p1 \<noteq> 0" by (auto dest: Resolve_frame(5))
  have R1: "Resolve e p1 w1 = (Inr (), p1, w1)" using nz by (rule Resolve_resolved)
  from assms Inr R1 show ?thesis
    by (cases c) (simp_all add: operator_star_def operator_arrow_def GetUIntPtr_def
        GetRetAddr_def Apply_via_Resolve [of e _ p w] forget_def)
qed

lemma invoke_scans:
  assumes "invoke e c p w = (r, p', w')"
  shows "scans (trace w') \<le> scans (trace w) + 1"
    and "r = None \<Longrightarrow> c \<noteq> CallConv \<Longrightarrow> real_address p' \<noteq> 0"
    and "c \<noteq> CallConv \<Longrightarrow> real_address p = 0 \<Longrightarrow> scans (trace w') = scans (trace w) + 1"
proof -
  obtain r1 p1 w1 where R: "Resolve e p w = (r1, p1, w1)" by (cases "Resolve e p w")
  note S = Resolve_scans [OF R]
  show "scans (trace w') \<le> scans (trace w) + 1"
  proof (cases "c = CallConv")
    case True
    with assms show ?thesis by (simp add: operator_T_def forget_def)
  next
    case False
    show ?thesis
    proof (cases r1)
      case (Inl f)
      with invoke_via_Resolve [OF False R] assms S show ?thesis by (simp split: if_splits)
    next
      case (Inr u)
      with R have nz: "real_address p1 \<noteq> 0" by (auto dest: Resolve_frame(5))
      from Inr invoke_via_Resolve [OF False R] assms have "invoke e c p1 w1 = (r, p', w')"
        by simp
      from invoke_resolved [OF nz this] S show ?thesis by (simp split: if_splits)
    qed
  qed
  show "real_address p' \<noteq> 0" if "r = None" "c \<noteq> CallConv"
  proof (cases r1)
    case (Inl f)
    with invoke_via_Resolve [OF that(2) R] assms that(1) show ?thesis by simp
  next
    case (Inr u)
    with R have nz: "real_address p1 \<noteq> 0" by (auto dest: Resolve_frame(5))
    from Inr invoke_via_Resolve [OF that(2) R] assms have "invoke e c p1 w1 = (r, p', w')"
      by simp
    from invoke_resolved [OF nz this] nz show ?thesis by simp
  qed
  show "scans (trace w') = scans (trace w) + 1" if "c \<noteq> CallConv" "real_address p = 0"
  proof (cases r1)
    case (Inl f)
    with invoke_via_Resolve [OF that(1) R] assms S that(2) show ?thesis by simp
  next
    case (Inr u)
    with R have nz: "real_address p1 \<noteq> 0" by (auto dest: Resolve_frame(5))
    from Inr invoke_via_Resolve [OF that(1) R] assms have "invoke e c p1 w1 = (r, p', w')"
      by simp
    from invoke_resolved [OF nz this] S that(2) show ?thesis by simp
  qed
qed

lemma run_scans: "scans (trace (snd (snd (run e cs p w)))) \<le> scans (trace w) + 1"
proof (induction cs arbitrary: p w)
  case Nil
  then show ?case by simp
next
  case (Cons c cs)
  obtain r1 p1 w1 where I: "invoke e c p w = (r1, p1, w1)" by (cases "invoke e c p w")
  show ?case
  proof (cases r1)
    case (Some f)
    with I invoke_scans(1) [OF I] show ?thesis by simp
  next
    case None
    show ?thesis
    proof (cases "c = CallConv")
      case True
      with I have "p1 = p" "w1 = w" by (simp_all add: operator_T_def forget_def)
      with I None Cons.IH [of p w] show ?thesis by simp
    next
      case False
      from invoke_scans(2) [OF I None False] have nz: "real_address p1 \<noteq> 0" .
      obtain r2 p2 w2 where Rn: "run e cs p1 w1 = (r2, p2, w2)" by (cases "run e cs p1 w1")
      from run_resolved [OF nz Rn] invoke_scans(1) [OF I] I None Rn show ?thesis by simp
    qed
  qed
qed

text \<open>The first \<^verbatim>\<open>GetUIntPtr\<close> on a fresh object, evaluated.\<close>

lemma example_GetUIntPtr:
  "GetUIntPtr good_env (RelocPatch_new (example_PatchSig hBranch5 7)) w_init =
     (Inr 0x2000,
      \<lparr>sig = example_PatchSig hBranch5 7, hook_done = False, real_address = 0x2000\<rparr>,
      \<lparr>code = (\<lambda>a. 0xCC), cells = (\<lambda>a. 0),
       trace = [EvRVAScan ''Example'' ''48 85 C0'' 0 0 0]\<rparr>)"
  by (simp add: GetUIntPtr_def Resolve_def Let_def example_defs)

subsection \<open>\<^verbatim>\<open>ApplyGamePatches\<close>: one iteration\<close>

lemmas body_defs = ApplyGamePatches_body_def Let_def next_do_def install_trampoline_def
  ASSERT_write_def store_def SafeMemSet_def resolved_address_def

lemma body_guard_fault:
  assumes "FindAddressById e (cs_id sg) = 0
           \<or> (\<exists>f. Size (cs_hook_type sg) = Inl f)
           \<or> (\<exists>h. Size (cs_hook_type sg) = Inr h \<and> \<not> h \<le> cs_patch_size sg)
           \<or> (cs_hook sg = 0) \<noteq> (cs_hook_type sg = None_t \<or> cs_hook_type sg = Nop)"
  shows "\<exists>f. ApplyGamePatches_body e sg w =
           (Some f, w\<lparr>trace := trace w @ [EvFindAddressById (cs_id sg)]\<rparr>)"
  using assms
  by (cases "cs_hook_type sg") (auto simp: body_defs split: if_splits)

lemma body_trampoline:
  assumes "cs_return_trampoline sg \<noteq> 0" and "ApplyGamePatches_body e sg w = (r, w')"
  shows "(\<exists>h k rest. Size (cs_hook_type sg) = Inr h
            \<and> trace w' = trace w @
                [EvFindAddressById (cs_id sg),
                 EvStore (cs_return_trampoline sg) (resolved_address e sg + h),
                 EvWrite k (resolved_address e sg) (cs_hook sg)] @ rest
            \<and> \<not> list_ex is_write rest
            \<and> cells w' (cs_return_trampoline sg) = resolved_address e sg + h)
         \<or> (r \<noteq> None \<and> w' = w\<lparr>trace := trace w @ [EvFindAddressById (cs_id sg)]\<rparr>)"
  using assms
  by (cases "cs_hook_type sg") (auto simp: body_defs split: if_splits)

lemma GetRetAddr_value:
  assumes "GetRetAddr e p w = (Inr a, p', w')"
  shows "\<exists>h. hSize (ps_hook_type (sig p)) = Inr h \<and> a = real_address p' + h
              \<and> real_address p' \<noteq> 0"
proof -
  obtain r p1 w1 where R: "Resolve e p w = (r, p1, w1)" by (cases "Resolve e p w")
  with assms obtain u where r: "r = Inr u" by (cases r) (auto simp: GetRetAddr_def)
  from R r have "real_address p1 \<noteq> 0" "sig p1 = sig p" by (auto dest: Resolve_frame)
  with assms R r show ?thesis by (auto simp: GetRetAddr_def split: sum.splits)
qed

lemma example_body_HideLegendaryButton:
  "ApplyGamePatches_body good_env kHideLegendaryButton_PatchSig w_init =
     (None,
      \<lparr>code = fill (\<lambda>a. 0xCC) 0x3159 0x90 0x18, cells = (\<lambda>a. 0)(0x9100 := 0x3159),
       trace = [EvFindAddressById 52527, EvStore 0x9100 0x3159,
                EvWrite Write6Branch 0x3153 0xB000, EvSafeMemSet 0x3159 0x90 0x18]\<rparr>)"
  by (simp add: body_defs kNop_def example_defs)

lemma example_body_Nop:
  "ApplyGamePatches_body good_env kAllowAllAttrImproveCarryWeight_PatchSig w_init =
     (None,
      \<lparr>code = fill (\<lambda>a. 0xCC) 0x709a 0x90 2, cells = (\<lambda>a. 0),
       trace = [EvFindAddressById 51917, EvSafeMemSet 0x709a 0x90 2]\<rparr>)"
  by (simp add: body_defs kNop_def example_defs)

lemma example_body_ThePlayer:
  "ApplyGamePatches_body good_env kThePlayer_ObjectSig w_init =
     (None,
      \<lparr>code = fill (\<lambda>a. 0xCC) 0x5000 0x90 0, cells = (\<lambda>a. 0)(0x9000 := 0x5000),
       trace = [EvFindAddressById 403521, EvStore 0x9000 0x5000,
                EvSafeMemSet 0x5000 0x90 0]\<rparr>)"
  by (simp add: body_defs kNop_def example_defs)

lemma example_body_ModifyPerkPool_bad:
  "ApplyGamePatches_body bad_env kModifyPerkPool_PatchSig w =
     (Some (AssertFailed ''g_branchTrampoline.Write6Branch(real_address, sig->hook)''),
      w\<lparr>trace := trace w @ [EvFindAddressById 52538, EvWrite Write6Branch 0x1062 0xA000]\<rparr>)"
  by (simp add: body_defs kNop_def example_defs)

lemma example_GetRetAddr:
  "GetRetAddr good_env (RelocPatch_new (example_PatchSig hBranch5 7)) w_init =
     (Inr 0x2005,
      \<lparr>sig = example_PatchSig hBranch5 7, hook_done = False, real_address = 0x2000\<rparr>,
      \<lparr>code = (\<lambda>a. 0xCC), cells = (\<lambda>a. 0),
       trace = [EvRVAScan ''Example'' ''48 85 C0'' 0 0 0]\<rparr>)"
  by (simp add: GetRetAddr_def Resolve_def Let_def example_defs)

lemma example_trampoline: "cs_return_trampoline kHideLegendaryButton_PatchSig \<noteq> 0"
  by (simp add: example_defs)

subsection \<open>Guards and the object constructor\<close>

text \<open>An undersized window stops \<^verbatim>\<open>Apply\<close> right after the resolution.\<close>

lemma Apply_undersized:
  assumes "hSize (ps_hook_type (sig p)) = Inr h" and "\<not> h \<le> ps_patch_size (sig p)"
  shows "\<exists>f p' w'. Apply e t p w = (Inl f, p', w') \<and> code w' = code w \<and> cells w' = cells w
           \<and> hook_done p' = hook_done p
           \<and> trace w' = trace w @
                (if real_address p \<noteq> 0 then []
                 else [EvRVAScan (ps_name (sig p)) (ps_sig (sig p)) (ps_hook_offset (sig p))
                         (ps_indirect_offset (sig p)) (ps_instr_size (sig p))])"
proof -
  obtain r p1 w1 where R: "Resolve e p w = (r, p1, w1)" by (cases "Resolve e p w")
  note F = Resolve_frame(1-4) [OF R] Resolve_trace [OF R]
  show ?thesis
  proof (cases r)
    case (Inl f)
    with R have "Apply e t p w = (Inl f, p1, w1)" by (simp add: Apply_def)
    with F show ?thesis by simp
  next
    case (Inr u)
    with R have nz: "real_address p1 \<noteq> 0" by (auto dest: Resolve_frame(5))
    from R Inr have "Apply e t p w = Apply e t p1 w1" by (simp add: Apply_via_Resolve)
    with nz assms F(1) have "\<exists>f. Apply e t p w = (Inl f, p1, w1)"
      by (simp add: Apply_resolved)
    with F show ?thesis by auto
  qed
qed

lemma body_object:
  assumes "ApplyGamePatches_body e (CodeSignature_object nm i res) w = (r, w')"
  shows "code w' = code w \<and> \<not> list_ex is_write (drop (length (trace w)) (trace w'))
     \<and> (case r of
           None \<Rightarrow> res \<noteq> 0 \<and> cells w' = (cells w)(res := FindAddressById e i)
             \<and> trace w' = trace w @
                 [EvFindAddressById i, EvStore res (FindAddressById e i),
                  EvSafeMemSet (FindAddressById e i) kNop 0]
         | Some f \<Rightarrow> w' = w\<lparr>trace := trace w @ [EvFindAddressById i]\<rparr>)"
  using assms
  by (auto simp: body_defs CodeSignature_object_def fill_zero split: if_splits)

lemma body_patch_None:
  "\<exists>f. ApplyGamePatches_body e (CodeSignature_patch nm None_t hk i psz tramp off) w =
          (Some f, w\<lparr>trace := trace w @ [EvFindAddressById i]\<rparr>)"
  by (auto simp: body_defs CodeSignature_patch_def split: if_splits)

subsection \<open>Completed installations and the loop over the table\<close>

lemma body_lookup:
  assumes "ApplyGamePatches_body e sg w = (r, w')"
  shows "lookup_ids (trace w') = lookup_ids (trace w) @ [cs_id sg]"
  using assms
  by (cases "cs_hook_type sg") (auto simp: body_defs lookup_ids_append split: if_splits)

lemma body_trace_grows:
  assumes "ApplyGamePatches_body e sg w = (r, w')"
  shows "\<exists>evs. trace w' = trace w @ evs"
  using assms
  by (cases "cs_hook_type sg") (auto simp: body_defs split: if_splits)

lemma body_success:
  assumes "ApplyGamePatches_body e sg w = (None, w')"
  shows "\<exists>h w2 evs. Size (cs_hook_type sg) = Inr h
           \<and> w' = SafeMemSet (resolved_address e sg + h) kNop (cs_patch_size sg - h) w2
           \<and> trace w2 = trace w @ evs \<and> \<not> list_ex is_memset evs
           \<and> (cs_hook_type sg = Nop \<longrightarrow> h = 0 \<and> code w2 = code w \<and> \<not> list_ex is_write evs)"
  using assms
  by (cases "cs_hook_type sg")
     (auto simp: ApplyGamePatches_body_def Let_def next_do_def install_trampoline_def
        ASSERT_write_def store_def resolved_address_def split: if_splits)

lemma body_addr_fault:
  "FindAddressById e (cs_id sg) = 0 \<Longrightarrow>
     ApplyGamePatches_body e sg w =
       (Some (AssertFailed ''addr''), w\<lparr>trace := trace w @ [EvFindAddressById (cs_id sg)]\<rparr>)"
  by (simp add: body_defs)

lemma body_write_fault:
  assumes "\<forall>k v a t. \<not> fst (write_hook e k v a t)"
    and "cs_hook_type sg \<noteq> None_t" and "cs_hook_type sg \<noteq> Nop"
  shows "fst (ApplyGamePatches_body e sg w) \<noteq> None"
  using assms
  by (cases "cs_hook_type sg") (auto simp: body_defs split: if_splits)

lemma SafeMemSet_code:
  "code (SafeMemSet at v n w) a = (if a - at < n then v else code w a)"
  by (simp add: SafeMemSet_def fill_def)

lemma Apply_switch_trace:
  assumes "Apply_switch e ra t ht w = (r, w')"
  shows "\<exists>evs. trace w' = trace w @ evs \<and> \<not> list_ex is_memset evs
           \<and> (ht = hNop \<longrightarrow> code w' = code w \<and> \<not> list_ex is_write evs)"
  using assms by (cases ht) (auto simp: ASSERT_write_def Let_def split: if_splits)

lemma Apply_success_shape:
  assumes "Apply e t p w = (Inr u, p', w')"
  shows "\<exists>h w2 evs. hSize (ps_hook_type (sig p)) = Inr h
           \<and> w' = SafeMemSet (real_address p' + h) kNop (ps_patch_size (sig p) - h) w2
           \<and> trace w2 = trace w @ evs \<and> \<not> list_ex is_memset evs
           \<and> (ps_hook_type (sig p) = hNop \<longrightarrow>
                 h = 0 \<and> code w2 = code w \<and> \<not> list_ex is_write evs)"
proof -
  obtain r p1 w1 where R: "Resolve e p w = (r, p1, w1)" by (cases "Resolve e p w")
  with assms obtain v where r: "r = Inr v"
    by (cases r) (auto simp: Apply_via_Resolve)
  from R r have nz: "real_address p1 \<noteq> 0" and s: "sig p1 = sig p" and c: "code w1 = code w"
    by (auto dest: Resolve_frame)
  from Resolve_trace [OF R] obtain ev0 where t1: "trace w1 = trace w @ ev0"
    and m0: "\<not> list_ex is_memset ev0" and w0: "\<not> list_ex is_write ev0"
    by (cases "real_address p \<noteq> 0") auto
  from assms R r have A: "Apply e t p1 w1 = (Inr u, p', w')"
    by (simp add: Apply_via_Resolve)
  from A nz s obtain h w2 where h: "hSize (ps_hook_type (sig p)) = Inr h"
    and sw: "Apply_switch e (real_address p1) t (ps_hook_type (sig p)) w1 = (None, w2)"
    and w': "w' = SafeMemSet (real_address p1 + h) kNop (ps_patch_size (sig p) - h) w2"
    and p': "real_address p' = real_address p1"
    by (auto simp: Apply_resolved split: sum.splits if_splits option.splits prod.splits)
  from Apply_switch_trace [OF sw] obtain ev1 where t2: "trace w2 = trace w1 @ ev1"
    and m1: "\<not> list_ex is_memset ev1"
    and n1: "ps_hook_type (sig p) = hNop \<longrightarrow> code w2 = code w1 \<and> \<not> list_ex is_write ev1"
    by blast
  have "trace w2 = trace w @ (ev0 @ ev1)" using t1 t2 by simp
  moreover have "\<not> list_ex is_memset (ev0 @ ev1)" using m0 m1 by simp
  moreover have "ps_hook_type (sig p) = hNop \<longrightarrow>
      h = 0 \<and> code w2 = code w \<and> \<not> list_ex is_write (ev0 @ ev1)"
    using n1 w0 c h by auto
  ultimately show ?thesis using h w' p'
    by (intro exI [of _ h] exI [of _ w2] exI [of _ "ev0 @ ev1"]) simp
qed

lemma example_body_ModifyPerkPool:
  "ApplyGamePatches_body good_env kModifyPerkPool_PatchSig w_init =
     (None,
      \<lparr>code = fill (\<lambda>a. 0xCC) 0x1068 0x90 1, cells = (\<lambda>a. 0),
       trace = [EvFindAddressById 52538, EvWrite Write6Branch 0x1062 0xA000,
                EvSafeMemSet 0x1068 0x90 1]\<rparr>)"
  by (simp add: body_defs kNop_def example_defs)

lemma ApplyGamePatches_append:
  "ApplyGamePatches e (xs @ ys) w =
     (case ApplyGamePatches e xs w of
        (None, w1) \<Rightarrow> ApplyGamePatches e ys w1
      | (Some f, w1) \<Rightarrow> (Some f, w1))"
  by (induction xs arbitrary: w) (auto split: prod.splits option.splits)

lemma ApplyGamePatches_done:
  assumes "ApplyGamePatches e sigs w = (None, w')"
  shows "lookup_ids (trace w') = lookup_ids (trace w) @ map cs_id sigs
         \<and> (\<exists>evs. trace w' = trace w @ evs)"
  using assms
proof (induction sigs arbitrary: w)
  case Nil
  then show ?case by simp
next
  case (Cons s sigs)
  obtain r1 w1 where B: "ApplyGamePatches_body e s w = (r1, w1)"
    by (cases "ApplyGamePatches_body e s w")
  with Cons.prems have r1: "r1 = None" and A: "ApplyGamePatches e sigs w1 = (None, w')"
    by (auto split: option.splits)
  from body_lookup [OF B] body_trace_grows [OF B] Cons.IH [OF A] show ?case by auto
qed

lemma ApplyGamePatches_fault:
  assumes "ApplyGamePatches e sigs w = (Some f, w2)"
  shows "\<exists>xs s ys w1. sigs = xs @ s # ys \<and> ApplyGamePatches e xs w = (None, w1)
           \<and> ApplyGamePatches_body e s w1 = (Some f, w2)"
  using assms
proof (induction sigs arbitrary: w)
  case Nil
  then show ?case by simp
next
  case (Cons s sigs)
  obtain r1 w1 where B: "ApplyGamePatches_body e s w = (r1, w1)"
    by (cases "ApplyGamePatches_body e s w")
  show ?case
  proof (cases r1)
    case (Some g)
    with B Cons.prems have "ApplyGamePatches_body e s w = (Some f, w2)" by simp
    then have "s # sigs = [] @ s # sigs \<and> ApplyGamePatches e [] w = (None, w)
        \<and> ApplyGamePatches_body e s w = (Some f, w2)" by simp
    then show ?thesis by blast
  next
    case None
    with B Cons.prems have "ApplyGamePatches e sigs w1 = (Some f, w2)" by simp
    from Cons.IH [OF this] obtain xs s' ys w1' where
      *: "sigs = xs @ s' # ys" "ApplyGamePatches e xs w1 = (None, w1')"
         "ApplyGamePatches_body e s' w1' = (Some f, w2)" by blast
    from * B None have "s # sigs = (s # xs) @ s' # ys
        \<and> ApplyGamePatches e (s # xs) w = (None, w1')
        \<and> ApplyGamePatches_body e s' w1' = (Some f, w2)" by simp
    then show ?thesis by blast
  qed
qed

lemma ApplyGamePatches_abort:
  assumes "ApplyGamePatches e xs w = (None, w1)"
    and "ApplyGamePatches_body e s w1 = (Some f, w2)"
  shows "ApplyGamePatches e (xs @ s # ys) w = (Some f, w2)"
  using assms by (simp add: ApplyGamePatches_append)

text \<open>
  The table of three signatures run with write primitives that fail: the player object is
  stored, then the first hook write fails.
\<close>

lemma example_table_first:
  "ApplyGamePatches bad_env [kThePlayer_ObjectSig] w_init =
     (None,
      \<lparr>code = fill (\<lambda>a. 0xCC) 0x5000 0x90 0, cells = (\<lambda>a. 0)(0x9000 := 0x5000),
         trace = [EvFindAddressById 403521, EvStore 0x9000 0x5000, EvSafeMemSet 0x5000 0x90 0]\<rparr>)"
  by (simp add: body_defs kNop_def example_defs)

lemma example_table_second:
  "ApplyGamePatches_body bad_env kModifyPerkPool_PatchSig
      \<lparr>code = fill (\<lambda>a. 0xCC) 0x5000 0x90 0, cells = (\<lambda>a. 0)(0x9000 := 0x5000),
         trace = [EvFindAddressById 403521, EvStore 0x9000 0x5000, EvSafeMemSet 0x5000 0x90 0]\<rparr> =
     (Some (AssertFailed ''g_branchTrampoline.Write6Branch(real_address, sig->hook)''),
      \<lparr>code = fill (\<lambda>a. 0xCC) 0x5000 0x90 0, cells = (\<lambda>a. 0)(0x9000 := 0x5000),
         trace = [EvFindAddressById 403521, EvStore 0x9000 0x5000, EvSafeMemSet 0x5000 0x90 0,
                  EvFindAddressById 52538, EvWrite Write6Branch 0x1062 0xA000]\<rparr>)"
  by (simp add: example_body_ModifyPerkPool_bad)

lemma example_table_bad:
  "ApplyGamePatches bad_env [kThePlayer_ObjectSig, kModifyPerkPool_PatchSig, kHideLegendaryButton_PatchSig] w_init =
     (Some (AssertFailed ''g_branchTrampoline.Write6Branch(real_address, sig->hook)''),
      \<lparr>code = fill (\<lambda>a. 0xCC) 0x5000 0x90 0, cells = (\<lambda>a. 0)(0x9000 := 0x5000),
         trace = [EvFindAddressById 403521, EvStore 0x9000 0x5000, EvSafeMemSet 0x5000 0x90 0,
                  EvFindAddressById 52538, EvWrite Write6Branch 0x1062 0xA000]\<rparr>)"
  by (simp add: body_defs kNop_def example_defs)

lemma example_table_good:
  "fst (ApplyGamePatches good_env [kThePlayer_ObjectSig, kModifyPerkPool_PatchSig, kHideLegendaryButton_PatchSig] w_init) = None"
  by (simp add: body_defs kNop_def example_defs)

lemma example_unknown_id: "FindAddressById good_env (cs_id (CodeSignature_object ''unknown'' 1 0x9000)) = 0"
  by (simp add: example_defs)

lemma example_writers_fail:
  "(\<forall>k v a t. \<not> fst (write_hook bad_env k v a t))
   \<and> cs_hook_type kModifyPerkPool_PatchSig \<noteq> None_t
   \<and> cs_hook_type kModifyPerkPool_PatchSig \<noteq> Nop"
  by (simp add: example_defs)

subsection \<open>What a run keeps\<close>

lemma ApplyGamePatches_installed:
  "(ApplyGamePatches e sigs w = (None, w')) = (installed_in_order e sigs w = Some w')"
  by (induction sigs arbitrary: w) (auto split: prod.splits option.splits)

lemma body_window:
  assumes "ApplyGamePatches_body e s w = (None, w')"
  shows "\<exists>h. Size (cs_hook_type s) = Inr h
           \<and> (\<forall>a. a - (resolved_address e s + h) < cs_patch_size s - h \<longrightarrow> code w' a = 0x90)
           \<and> (cs_return_trampoline s \<noteq> 0 \<longrightarrow>
                 cells w' (cs_return_trampoline s) = resolved_address e s + h)"
proof -
  from body_success [OF assms] obtain h w2 where
    h: "Size (cs_hook_type s) = Inr h"
    and w': "w' = SafeMemSet (resolved_address e s + h) kNop (cs_patch_size s - h) w2"
    by blast
  from w' have win: "\<forall>a. a - (resolved_address e s + h) < cs_patch_size s - h \<longrightarrow> code w' a = 0x90"
    by (simp add: SafeMemSet_code kNop_def)
  have "cells w' (cs_return_trampoline s) = resolved_address e s + h"
    if "cs_return_trampoline s \<noteq> 0"
    using body_trampoline [OF that assms] h by auto
  with h win show ?thesis by blast
qed

lemma ApplyGamePatches_two:
  assumes "ApplyGamePatches_body e s0 w = (None, w0)" and "FindAddressById e (cs_id s) = 0"
  shows "ApplyGamePatches e (s0 # s # ys) w =
           (Some (AssertFailed ''addr''), w0\<lparr>trace := trace w0 @ [EvFindAddressById (cs_id s)]\<rparr>)"
  using assms(1) body_addr_fault [OF assms(2), of w0] by simp

text \<open>
  A completed 6-byte jump over a 7-byte window, then an id the database does not know.
\<close>

lemma example_table_kept:
  "ApplyGamePatches good_env (kModifyPerkPool_PatchSig # CodeSignature_object ''unknown'' 1 0x9000 # [kHideLegendaryButton_PatchSig]) w_init =
     (Some (AssertFailed ''addr''),
      \<lparr>code = fill (\<lambda>a. 0xCC) 0x1068 0x90 1, cells = (\<lambda>a. 0),
       trace = [EvFindAddressById 52538, EvWrite Write6Branch 0x1062 0xA000,
                EvSafeMemSet 0x1068 0x90 1, EvFindAddressById 1]\<rparr>)"
  by (simp add: body_defs kNop_def example_defs)

lemma example_installed_first:
  "installed_in_order bad_env [kThePlayer_ObjectSig] w_init =
     Some \<lparr>code = fill (\<lambda>a. 0xCC) 0x5000 0x90 0, cells = (\<lambda>a. 0)(0x9000 := 0x5000),
         trace = [EvFindAddressById 403521, EvStore 0x9000 0x5000, EvSafeMemSet 0x5000 0x90 0]\<rparr>"
  by (rule ApplyGamePatches_installed [THEN iffD1, OF example_table_first])

section \<open>The claims\<close>

text \<open>
  C2 (as amended). \<^verbatim>\<open>HookType::Size\<close> is a function of the tag alone. In
  \<^verbatim>\<open>RelocPatch.cpp\<close> it returns 0 for None and Nop, 5 for Jump5, Call5, DirectCall and
  DirectJump, 6 for Jump6 and Call6, and halts exactly for the values that name no
  enumerator. In \<^verbatim>\<open>RelocPatch.h\<close> it returns 0 for Nop, 5 for Branch5, Call5, DirectCall
  and DirectJump, 6 for Branch6 and Call6, and halts for None as well as for the values that
  name no enumerator.
\<close>

theorem C2_Size_per_tag:
  "Size None_t = Inr 0 \<and> Size Nop = Inr 0
   \<and> Size Jump5 = Inr 5 \<and> Size Call5 = Inr 5 \<and> Size DirectCall = Inr 5
   \<and> Size DirectJump = Inr 5
   \<and> Size Jump6 = Inr 6 \<and> Size Call6 = Inr 6
   \<and> ((\<exists>f. Size t = Inl f) = (\<exists>n. t = Unlisted n))
   \<and> hSize hNop = Inr 0
   \<and> hSize hBranch5 = Inr 5 \<and> hSize hCall5 = Inr 5 \<and> hSize hDirectCall = Inr 5
   \<and> hSize hDirectJump = Inr 5
   \<and> hSize hBranch6 = Inr 6 \<and> hSize hCall6 = Inr 6
   \<and> ((\<exists>f. hSize u = Inl f) = (u = hNone \<or> (\<exists>n. u = hUnlisted n)))"
  by (cases t; cases u; simp add: kDirectCallPatchSize_def kDirectJumpPatchSize_def)

text \<open>
  C2, as stated, fails in \<^verbatim>\<open>RelocPatch.h\<close>: the tag None belongs to the enumeration, and
  \<^verbatim>\<open>Size\<close> halts on it instead of returning 0.
\<close>

theorem C2_header_None_halts:
  "hSize hNone = Inl (Halt ''Cannot get the size of an invalid hook type.'')
   \<and> hSize hNone \<noteq> Inr 0"
  by simp

text \<open>
  C4. Installation through \<^verbatim>\<open>RelocPatch::Apply\<close> is single-shot: after an \<^verbatim>\<open>Apply\<close>
  that completed, the object is marked done, and any further \<^verbatim>\<open>Apply\<close> on it (any target,
  any collaborators, any world) fails the assertion \<^verbatim>\<open>!hook_done\<close> and leaves the object and
  the world (code bytes, cells and trace) exactly as they were.
\<close>

theorem C4_Apply_single_shot:
  assumes "Apply e t p w = (Inr u, p1, w1)"
  shows "hook_done p1 \<and> Apply e' t' p1 w2 = (Inl (AssertFailed ''!hook_done''), p1, w2)"
proof -
  from assms have d: "hook_done p1" and nz: "real_address p1 \<noteq> 0" and s: "sig p1 = sig p"
    by (rule Apply_success)+
  from Apply_success(4)[OF assms] s obtain h where "hSize (ps_hook_type (sig p1)) = Inr h"
    by auto
  with d nz show ?thesis by (simp add: Apply_resolved)
qed

theorem C4_Apply_single_shot_witness:
  "hook_done \<lparr>sig = example_PatchSig hBranch5 7, hook_done = True, real_address = 0x2000\<rparr>
   \<and> Apply bad_env 0
        \<lparr>sig = example_PatchSig hBranch5 7, hook_done = True, real_address = 0x2000\<rparr> w_init =
      (Inl (AssertFailed ''!hook_done''),
       \<lparr>sig = example_PatchSig hBranch5 7, hook_done = True, real_address = 0x2000\<rparr>, w_init)"
  by (rule C4_Apply_single_shot [OF example_Apply])

text \<open>
  C5. Resolution is idempotent and memoized. Once \<^verbatim>\<open>GetUIntPtr\<close> has returned an address
  \<open>a\<close>, a second \<^verbatim>\<open>GetUIntPtr\<close> (whatever the scanner would now answer, in whatever
  world) returns the same \<open>a\<close> and changes nothing, \<^verbatim>\<open>Resolve\<close> is a no-op, and over any
  further sequence of member calls the cached address stays \<open>a\<close> and the scanner is not
  consulted again. The first resolution consults the scanner at most once, and so does any
  sequence of member calls on a freshly constructed object.
\<close>

theorem C5_resolution_memoized:
  assumes "GetUIntPtr e p w = (Inr a, p1, w1)"
  shows "GetUIntPtr e' p1 w2 = (Inr a, p1, w2)
         \<and> Resolve e' p1 w2 = (Inr (), p1, w2)
         \<and> real_address (fst (snd (run e' cs p1 w2))) = a
         \<and> scans (trace (snd (snd (run e' cs p1 w2)))) = scans (trace w2)
         \<and> scans (trace w1) \<le> scans (trace w) + 1
         \<and> scans (trace (snd (snd (run e cs (RelocPatch_new s) w)))) \<le> scans (trace w) + 1"
proof -
  obtain r0 where R: "Resolve e p w = (r0, p1, w1)" and a: "a = real_address p1"
    and r0: "r0 = Inr ()"
    using assms by (cases "Resolve e p w") (auto simp: GetUIntPtr_def split: sum.splits)
  from R r0 have nz: "real_address p1 \<noteq> 0" by (auto dest: Resolve_frame(5))
  have 1: "GetUIntPtr e' p1 w2 = (Inr a, p1, w2)"
    using nz a by (simp add: GetUIntPtr_def Resolve_resolved)
  have 2: "Resolve e' p1 w2 = (Inr (), p1, w2)" using nz by (rule Resolve_resolved)
  obtain r2 p2 w3 where Rn: "run e' cs p1 w2 = (r2, p2, w3)" by (cases "run e' cs p1 w2")
  from run_resolved [OF nz Rn] Rn a
  have 3: "real_address (fst (snd (run e' cs p1 w2))) = a"
    and 4: "scans (trace (snd (snd (run e' cs p1 w2)))) = scans (trace w2)" by simp_all
  from Resolve_scans [OF R] have 5: "scans (trace w1) \<le> scans (trace w) + 1" by simp
  from 1 2 3 4 5 run_scans show ?thesis by blast
qed

theorem C5_resolution_memoized_witness:
  "GetUIntPtr bad_env
     \<lparr>sig = example_PatchSig hBranch5 7, hook_done = False, real_address = 0x2000\<rparr> w_init =
     (Inr 0x2000,
      \<lparr>sig = example_PatchSig hBranch5 7, hook_done = False, real_address = 0x2000\<rparr>, w_init)
   \<and> Resolve bad_env
     \<lparr>sig = example_PatchSig hBranch5 7, hook_done = False, real_address = 0x2000\<rparr> w_init =
     (Inr (),
      \<lparr>sig = example_PatchSig hBranch5 7, hook_done = False, real_address = 0x2000\<rparr>, w_init)
   \<and> real_address (fst (snd (run bad_env [CallGetRetAddr, CallApply 0xA000, CallStar]
        \<lparr>sig = example_PatchSig hBranch5 7, hook_done = False, real_address = 0x2000\<rparr>
        w_init))) = 0x2000
   \<and> scans (trace (snd (snd (run bad_env [CallGetRetAddr, CallApply 0xA000, CallStar]
        \<lparr>sig = example_PatchSig hBranch5 7, hook_done = False, real_address = 0x2000\<rparr>
        w_init)))) = scans (trace w_init)
   \<and> scans (trace \<lparr>code = (\<lambda>a. 0xCC), cells = (\<lambda>a. 0),
        trace = [EvRVAScan ''Example'' ''48 85 C0'' 0 0 0]\<rparr>) \<le> scans (trace w_init) + 1
   \<and> scans (trace (snd (snd (run good_env [CallGetRetAddr, CallApply 0xA000, CallStar]
        (RelocPatch_new (example_PatchSig hNop 2)) w_init)))) \<le> scans (trace w_init) + 1"
  by (rule C5_resolution_memoized [OF example_GetUIntPtr])

text \<open>
  C10. \<^verbatim>\<open>operator T()\<close> returns the cached address as it is and never resolves: on an
  object that was never resolved it returns 0 and leaves the object and the world untouched
  (no scan), whereas \<^verbatim>\<open>operator*\<close>, \<^verbatim>\<open>operator->\<close>, \<^verbatim>\<open>GetUIntPtr\<close>, \<^verbatim>\<open>GetRetAddr\<close> and
  \<^verbatim>\<open>Apply\<close> on such an object each consult the scanner once.
\<close>

theorem C10_conversion_does_not_resolve:
  "operator_T e (RelocPatch_new s) w = (Inr 0, RelocPatch_new s, w)
   \<and> operator_T e p w = (Inr (real_address p), p, w)
   \<and> scans (trace (snd (snd (operator_star e (RelocPatch_new s) w)))) = scans (trace w) + 1
   \<and> scans (trace (snd (snd (operator_arrow e (RelocPatch_new s) w)))) = scans (trace w) + 1
   \<and> scans (trace (snd (snd (GetUIntPtr e (RelocPatch_new s) w)))) = scans (trace w) + 1
   \<and> scans (trace (snd (snd (GetRetAddr e (RelocPatch_new s) w)))) = scans (trace w) + 1
   \<and> scans (trace (snd (snd (Apply e t (RelocPatch_new s) w)))) = scans (trace w) + 1"
proof -
  have fresh: "real_address (RelocPatch_new s) = 0" by (simp add: RelocPatch_new_def)
  have inv: "scans (trace (snd (snd (invoke e c (RelocPatch_new s) w)))) = scans (trace w) + 1"
    if "c \<noteq> CallConv" for c
  proof -
    obtain r p' w' where I: "invoke e c (RelocPatch_new s) w = (r, p', w')"
      by (cases "invoke e c (RelocPatch_new s) w")
    from invoke_scans(3) [OF I that fresh] I show ?thesis by simp
  qed
  have sf: "snd (snd (forget x)) = snd (snd x)" for x :: "(fault + 'a) \<times> RelocPatch \<times> world"
    by (cases x) (auto simp: forget_def split: sum.splits)
  from inv [of CallStar] inv [of CallArrow] inv [of CallGetUIntPtr] inv [of CallGetRetAddr]
    inv [of "CallApply t"] fresh
  show ?thesis by (simp add: sf operator_T_def)
qed

text \<open>
  C1. For a code signature with a return trampoline, one iteration of
  \<^verbatim>\<open>ApplyGamePatches\<close> either stops at a guard having written nothing (its only trace is
  the database lookup), or it stores \<open>resolved_address + Size hook_type\<close> into the
  trampoline and only then calls the write primitive of the hook at the resolved address:
  the store is the event just before the one hook write, and the trampoline cell still holds
  that value when the iteration ends, whether or not the write succeeded. The value is the
  one \<^verbatim>\<open>RelocPatch::GetRetAddr\<close> computes: the cached address plus the size of the hook.
\<close>

theorem C1_trampoline_before_hook:
  "(cs_return_trampoline sg \<noteq> 0 \<and> ApplyGamePatches_body e sg w = (r, w') \<longrightarrow>
      (\<exists>h k rest. Size (cs_hook_type sg) = Inr h
            \<and> trace w' = trace w @
                [EvFindAddressById (cs_id sg),
                 EvStore (cs_return_trampoline sg) (resolved_address e sg + h),
                 EvWrite k (resolved_address e sg) (cs_hook sg)] @ rest
            \<and> \<not> list_ex is_write rest
            \<and> cells w' (cs_return_trampoline sg) = resolved_address e sg + h)
         \<or> (r \<noteq> None \<and> w' = w\<lparr>trace := trace w @ [EvFindAddressById (cs_id sg)]\<rparr>))
   \<and> (GetRetAddr e p v = (Inr a, p', v') \<longrightarrow>
        (\<exists>h. hSize (ps_hook_type (sig p)) = Inr h \<and> a = real_address p' + h
              \<and> real_address p' \<noteq> 0))"
  using body_trampoline [of sg e w r w'] GetRetAddr_value [of e p v a p' v'] by blast

theorem C1_trampoline_before_hook_witness:
  "(\<exists>h k rest. Size (cs_hook_type kHideLegendaryButton_PatchSig) = Inr h
      \<and> trace (snd (ApplyGamePatches_body good_env kHideLegendaryButton_PatchSig w_init)) =
          trace w_init @
          [EvFindAddressById (cs_id kHideLegendaryButton_PatchSig),
           EvStore (cs_return_trampoline kHideLegendaryButton_PatchSig)
             (resolved_address good_env kHideLegendaryButton_PatchSig + h),
           EvWrite k (resolved_address good_env kHideLegendaryButton_PatchSig)
             (cs_hook kHideLegendaryButton_PatchSig)] @ rest
      \<and> \<not> list_ex is_write rest
      \<and> cells (snd (ApplyGamePatches_body good_env kHideLegendaryButton_PatchSig w_init))
            (cs_return_trampoline kHideLegendaryButton_PatchSig) =
          resolved_address good_env kHideLegendaryButton_PatchSig + h)
   \<and> (\<exists>h. hSize (ps_hook_type (sig (RelocPatch_new (example_PatchSig hBranch5 7)))) = Inr h
          \<and> 0x2005 = 0x2000 + h)"
  using C1_trampoline_before_hook [of kHideLegendaryButton_PatchSig good_env w_init None
      "snd (ApplyGamePatches_body good_env kHideLegendaryButton_PatchSig w_init)"
      "RelocPatch_new (example_PatchSig hBranch5 7)" w_init "0x2005"
      "\<lparr>sig = example_PatchSig hBranch5 7, hook_done = False, real_address = 0x2000\<rparr>"
      "\<lparr>code = (\<lambda>a. 0xCC), cells = (\<lambda>a. 0),
        trace = [EvRVAScan ''Example'' ''48 85 C0'' 0 0 0]\<rparr>"]
    example_trampoline
  by (simp add: example_body_HideLegendaryButton example_GetRetAddr)

text \<open>
  C9. Both installers check \<open>Size hook_type \<le> patch_size\<close> before any store or memory
  write. When the size of the hook exceeds the patch size, one iteration of
  \<^verbatim>\<open>ApplyGamePatches\<close> faults with the world unchanged but for the trace of the database
  lookup, and \<^verbatim>\<open>RelocPatch::Apply\<close> faults with the code bytes and the cells unchanged,
  the object not marked done, and no trace but that of the scan its resolution may have
  made: nothing of the hook is installed.
\<close>

theorem C9_size_guard_before_writes:
  "(Size (cs_hook_type sg) = Inr h \<and> \<not> h \<le> cs_patch_size sg \<longrightarrow>
      (\<exists>f. ApplyGamePatches_body e sg w =
              (Some f, w\<lparr>trace := trace w @ [EvFindAddressById (cs_id sg)]\<rparr>)))
   \<and> (hSize (ps_hook_type (sig p)) = Inr h' \<and> \<not> h' \<le> ps_patch_size (sig p) \<longrightarrow>
      (\<exists>f p' v'. Apply e t p v = (Inl f, p', v') \<and> code v' = code v \<and> cells v' = cells v
           \<and> hook_done p' = hook_done p
           \<and> trace v' = trace v @
                (if real_address p \<noteq> 0 then []
                 else [EvRVAScan (ps_name (sig p)) (ps_sig (sig p)) (ps_hook_offset (sig p))
                         (ps_indirect_offset (sig p)) (ps_instr_size (sig p))])))"
  using body_guard_fault [of e sg w] Apply_undersized [of p h' e t v] by blast

theorem C9_size_guard_before_writes_witness:
  "(\<exists>f. ApplyGamePatches_body good_env
           (CodeSignature_patch ''ModifyPerkPool'' Jump6 0xA000 52538 5 0 0x62) w_init =
           (Some f, w_init\<lparr>trace := trace w_init @ [EvFindAddressById 52538]\<rparr>))
   \<and> (\<exists>f p' v'. Apply good_env 0xA000 (RelocPatch_new (example_PatchSig hBranch6 5)) w_init =
           (Inl f, p', v') \<and> code v' = code w_init \<and> cells v' = cells w_init
           \<and> hook_done p' = False
           \<and> trace v' = trace w_init @ [EvRVAScan ''Example'' ''48 85 C0'' 0 0 0])"
  using C9_size_guard_before_writes [of "CodeSignature_patch ''ModifyPerkPool'' Jump6 0xA000 52538 5 0 0x62" 6
      good_env w_init "RelocPatch_new (example_PatchSig hBranch6 5)" 6 "0xA000" w_init]
  by (simp add: example_defs)

text \<open>
  C8 (as amended). \<^verbatim>\<open>ApplyGamePatches\<close> asserts that the hook of a code signature is
  null exactly when its type is None or Nop: a signature that violates this faults before
  any store or memory write, the world unchanged but for the trace of the database lookup.
\<close>

theorem C8_hook_iff_injectable_checked:
  assumes "(cs_hook sg = 0) \<noteq> (cs_hook_type sg = None_t \<or> cs_hook_type sg = Nop)"
  shows "\<exists>f. ApplyGamePatches_body e sg w =
           (Some f, w\<lparr>trace := trace w @ [EvFindAddressById (cs_id sg)]\<rparr>)"
  using assms by (intro body_guard_fault) simp

theorem C8_hook_iff_injectable_checked_witness:
  "\<exists>f. ApplyGamePatches_body good_env
          (CodeSignature_patch ''ModifyPerkPool'' Jump6 0 52538 7 0 0x62) w_init =
          (Some f, w_init\<lparr>trace := trace w_init @ [EvFindAddressById 52538]\<rparr>)"
  using C8_hook_iff_injectable_checked [of "CodeSignature_patch ''ModifyPerkPool'' Jump6 0 52538 7 0 0x62" good_env w_init]
  by (simp add: example_defs)

text \<open>
  C8, as stated, fails for \<^verbatim>\<open>RelocPatch::Apply\<close>, which takes the target as an argument
  and does not check it: a 5-byte branch with a null target is installed without a fault,
  and so is a Nop patch given a target.
\<close>

theorem C8_Apply_unchecked_target:
  "Apply good_env 0 (RelocPatch_new (example_PatchSig hBranch5 7)) w_init =
     (Inr (),
      \<lparr>sig = example_PatchSig hBranch5 7, hook_done = True, real_address = 0x2000\<rparr>,
      \<lparr>code = fill (\<lambda>a. 0xCC) 0x2005 0x90 2, cells = (\<lambda>a. 0),
       trace = [EvRVAScan ''Example'' ''48 85 C0'' 0 0 0, EvWrite Write5Branch 0x2000 0,
                EvSafeMemSet 0x2005 0x90 2]\<rparr>)
   \<and> fst (Apply good_env 0xA000 (RelocPatch_new (example_PatchSig hNop 2)) w_init) = Inr ()"
  by (simp add: Apply_def Resolve_def GetRetAddr_def ASSERT_write_def SafeMemSet_def kNop_def
      Let_def example_defs)

text \<open>
  C7. A None-type code signature writes no code byte. Built by the object constructor
  (type None, patch size 0), its iteration of \<^verbatim>\<open>ApplyGamePatches\<close> leaves every code byte
  as it was and calls no write primitive; when it completes, its only effect on memory is
  the store of the resolved address (the address of the database, the offset being 0) into
  the result cell, the filler being called for 0 bytes; when it faults, nothing was stored.
  A None-type signature built by the patch constructor has a null result pointer and faults
  before any store or write.
\<close>

theorem C7_None_writes_result_only:
  "(ApplyGamePatches_body e (CodeSignature_object nm i res) w = (r, w') \<longrightarrow>
     code w' = code w \<and> \<not> list_ex is_write (drop (length (trace w)) (trace w'))
     \<and> (case r of
           None \<Rightarrow> res \<noteq> 0 \<and> cells w' = (cells w)(res := FindAddressById e i)
             \<and> trace w' = trace w @
                 [EvFindAddressById i, EvStore res (FindAddressById e i),
                  EvSafeMemSet (FindAddressById e i) kNop 0]
         | Some f \<Rightarrow> w' = w\<lparr>trace := trace w @ [EvFindAddressById i]\<rparr>))
   \<and> (\<exists>f. ApplyGamePatches_body e (CodeSignature_patch nm' None_t hk i' psz tramp off) w =
          (Some f, w\<lparr>trace := trace w @ [EvFindAddressById i']\<rparr>))"
  using body_object [of e nm i res w r w'] body_patch_None [of e nm' hk i' psz tramp off w]
  by blast

theorem C7_None_writes_result_only_witness:
  "code (snd (ApplyGamePatches_body good_env kThePlayer_ObjectSig w_init)) = code w_init
   \<and> cells (snd (ApplyGamePatches_body good_env kThePlayer_ObjectSig w_init)) =
       (cells w_init)(0x9000 := FindAddressById good_env 403521)
   \<and> trace (snd (ApplyGamePatches_body good_env kThePlayer_ObjectSig w_init)) =
       trace w_init @
       [EvFindAddressById 403521, EvStore 0x9000 (FindAddressById good_env 403521),
        EvSafeMemSet (FindAddressById good_env 403521) kNop 0]"
proof -
  let ?W = "snd (ApplyGamePatches_body good_env kThePlayer_ObjectSig w_init)"
  have "ApplyGamePatches_body good_env (CodeSignature_object ''g_thePlayer'' 403521 0x9000)
          w_init = (None, ?W)"
    by (simp add: example_body_ThePlayer kThePlayer_ObjectSig_def [symmetric])
  with C7_None_writes_result_only [of good_env "''g_thePlayer''" 403521 "0x9000" w_init None ?W]
  show ?thesis by simp
qed

text \<open>
  C3. An installation that completes ends with one call of the filler: the world it leaves
  is \<^verbatim>\<open>SafeMemSet(resolved address + Size, 0x90, patch_size - Size)\<close> applied to the world
  \<open>w2\<close> the hook step left, and no other call of the filler was made for this signature.
  So exactly the \<open>patch_size - Size\<close> bytes from \<open>resolved address + Size\<close> on hold 0x90,
  and every other code byte is as the hook step left it. For a Nop-type signature the size is
  0, so the window is the whole \<open>patch_size\<close> bytes at the resolved address, the code bytes
  before the fill are those before the installation, and no write primitive was called. This
  holds for an iteration of \<^verbatim>\<open>ApplyGamePatches\<close> and for \<^verbatim>\<open>RelocPatch::Apply\<close>.
\<close>

theorem C3_rest_filled_with_nops:
  "(ApplyGamePatches_body e sg w = (None, w') \<longrightarrow>
     (\<exists>h w2 evs. Size (cs_hook_type sg) = Inr h
        \<and> w' = SafeMemSet (resolved_address e sg + h) kNop (cs_patch_size sg - h) w2
        \<and> trace w2 = trace w @ evs \<and> \<not> list_ex is_memset evs
        \<and> (\<forall>a. code w' a =
              (if a - (resolved_address e sg + h) < cs_patch_size sg - h then 0x90
               else code w2 a))
        \<and> (cs_hook_type sg = Nop \<longrightarrow>
              h = 0 \<and> code w2 = code w \<and> \<not> list_ex is_write evs)))
   \<and> (Apply e t p v = (Inr u, p', v') \<longrightarrow>
     (\<exists>h v2 evs. hSize (ps_hook_type (sig p)) = Inr h
        \<and> v' = SafeMemSet (real_address p' + h) kNop (ps_patch_size (sig p) - h) v2
        \<and> trace v2 = trace v @ evs \<and> \<not> list_ex is_memset evs
        \<and> (\<forall>a. code v' a =
              (if a - (real_address p' + h) < ps_patch_size (sig p) - h then 0x90
               else code v2 a))
        \<and> (ps_hook_type (sig p) = hNop \<longrightarrow>
              h = 0 \<and> code v2 = code v \<and> \<not> list_ex is_write evs)))"
proof (intro conjI impI)
  assume "ApplyGamePatches_body e sg w = (None, w')"
  from body_success [OF this] obtain h w2 evs where
    *: "Size (cs_hook_type sg) = Inr h"
       "w' = SafeMemSet (resolved_address e sg + h) kNop (cs_patch_size sg - h) w2"
       "trace w2 = trace w @ evs" "\<not> list_ex is_memset evs"
       "cs_hook_type sg = Nop \<longrightarrow> h = 0 \<and> code w2 = code w \<and> \<not> list_ex is_write evs"
    by blast
  from *(2) have "\<forall>a. code w' a =
      (if a - (resolved_address e sg + h) < cs_patch_size sg - h then 0x90 else code w2 a)"
    by (simp add: SafeMemSet_code kNop_def)
  with * show "\<exists>h w2 evs. Size (cs_hook_type sg) = Inr h
        \<and> w' = SafeMemSet (resolved_address e sg + h) kNop (cs_patch_size sg - h) w2
        \<and> trace w2 = trace w @ evs \<and> \<not> list_ex is_memset evs
        \<and> (\<forall>a. code w' a =
              (if a - (resolved_address e sg + h) < cs_patch_size sg - h then 0x90
               else code w2 a))
        \<and> (cs_hook_type sg = Nop \<longrightarrow>
              h = 0 \<and> code w2 = code w \<and> \<not> list_ex is_write evs)"
    by blast
next
  assume "Apply e t p v = (Inr u, p', v')"
  from Apply_success_shape [OF this] obtain h v2 evs where
    *: "hSize (ps_hook_type (sig p)) = Inr h"
       "v' = SafeMemSet (real_address p' + h) kNop (ps_patch_size (sig p) - h) v2"
       "trace v2 = trace v @ evs" "\<not> list_ex is_memset evs"
       "ps_hook_type (sig p) = hNop \<longrightarrow> h = 0 \<and> code v2 = code v \<and> \<not> list_ex is_write evs"
    by blast
  from *(2) have "\<forall>a. code v' a =
      (if a - (real_address p' + h) < ps_patch_size (sig p) - h then 0x90 else code v2 a)"
    by (simp add: SafeMemSet_code kNop_def)
  with * show "\<exists>h v2 evs. hSize (ps_hook_type (sig p)) = Inr h
        \<and> v' = SafeMemSet (real_address p' + h) kNop (ps_patch_size (sig p) - h) v2
        \<and> trace v2 = trace v @ evs \<and> \<not> list_ex is_memset evs
        \<and> (\<forall>a. code v' a =
              (if a - (real_address p' + h) < ps_patch_size (sig p) - h then 0x90
               else code v2 a))
        \<and> (ps_hook_type (sig p) = hNop \<longrightarrow>
              h = 0 \<and> code v2 = code v \<and> \<not> list_ex is_write evs)"
    by blast
qed


theorem C3_rest_filled_with_nops_witness:
  "(\<exists>h w2 evs. Size (cs_hook_type kModifyPerkPool_PatchSig) = Inr h
        \<and> (snd (ApplyGamePatches_body good_env kModifyPerkPool_PatchSig w_init)) =
            SafeMemSet (resolved_address good_env kModifyPerkPool_PatchSig + h) kNop (cs_patch_size kModifyPerkPool_PatchSig - h) w2
        \<and> trace w2 = trace w_init @ evs \<and> \<not> list_ex is_memset evs
        \<and> (\<forall>a. code (snd (ApplyGamePatches_body good_env kModifyPerkPool_PatchSig w_init)) a =
              (if a - (resolved_address good_env kModifyPerkPool_PatchSig + h) < cs_patch_size kModifyPerkPool_PatchSig - h then 0x90
               else code w2 a))
        \<and> (cs_hook_type kModifyPerkPool_PatchSig = Nop \<longrightarrow>
              h = 0 \<and> code w2 = code w_init \<and> \<not> list_ex is_write evs))
   \<and> (\<exists>h v2 evs. hSize (ps_hook_type (sig (RelocPatch_new (example_PatchSig hBranch5 7)))) = Inr h
        \<and> (snd (snd (Apply good_env 0xA000 (RelocPatch_new (example_PatchSig hBranch5 7)) w_init))) =
            SafeMemSet (real_address \<lparr>sig = example_PatchSig hBranch5 7, hook_done = True, real_address = 0x2000\<rparr> + h) kNop (ps_patch_size (sig (RelocPatch_new (example_PatchSig hBranch5 7))) - h) v2
        \<and> trace v2 = trace w_init @ evs \<and> \<not> list_ex is_memset evs
        \<and> (\<forall>a. code (snd (snd (Apply good_env 0xA000 (RelocPatch_new (example_PatchSig hBranch5 7)) w_init))) a =
              (if a - (real_address \<lparr>sig = example_PatchSig hBranch5 7, hook_done = True, real_address = 0x2000\<rparr> + h) < ps_patch_size (sig (RelocPatch_new (example_PatchSig hBranch5 7))) - h then 0x90
               else code v2 a))
        \<and> (ps_hook_type (sig (RelocPatch_new (example_PatchSig hBranch5 7))) = hNop \<longrightarrow>
              h = 0 \<and> code v2 = code w_init \<and> \<not> list_ex is_write evs))"
proof -
  have 1: "ApplyGamePatches_body good_env kModifyPerkPool_PatchSig w_init = (None, (snd (ApplyGamePatches_body good_env kModifyPerkPool_PatchSig w_init)))"
    by (simp add: example_body_ModifyPerkPool)
  have 2: "Apply good_env 0xA000 (RelocPatch_new (example_PatchSig hBranch5 7)) w_init =
             (Inr (), \<lparr>sig = example_PatchSig hBranch5 7, hook_done = True, real_address = 0x2000\<rparr>, (snd (snd (Apply good_env 0xA000 (RelocPatch_new (example_PatchSig hBranch5 7)) w_init))))"
    by (simp add: example_Apply)
  note T = C3_rest_filled_with_nops [of good_env kModifyPerkPool_PatchSig w_init "snd (ApplyGamePatches_body good_env kModifyPerkPool_PatchSig w_init)" "0xA000"
      "RelocPatch_new (example_PatchSig hBranch5 7)" w_init "()" "\<lparr>sig = example_PatchSig hBranch5 7, hook_done = True, real_address = 0x2000\<rparr>" "snd (snd (Apply good_env 0xA000 (RelocPatch_new (example_PatchSig hBranch5 7)) w_init))"]
  from T [THEN conjunct1, rule_format, OF 1] T [THEN conjunct2, rule_format, OF 2]
  show ?thesis by (rule conjI)
qed

text \<open>
  C6. \<^verbatim>\<open>ApplyGamePatches\<close> runs the table in order and stops at the first fault, keeping
  what it installed. A run that faults splits the table into the signatures \<open>xs\<close> that
  were installed, the one \<open>s\<close> that faulted and the rest \<open>ys\<close>: the result is the fault
  of \<open>s\<close> and the world its iteration left, started from the world \<open>w1\<close> that the
  iterations of \<open>xs\<close>, one after the other, produced (\<open>installed_in_order\<close>), whatever
  \<open>ys\<close> is; the ids looked up are those of \<open>xs\<close> and \<open>s\<close>, in table order, and none
  of \<open>ys\<close>. A run that completes looked up the ids of the whole table in order and leaves
  the world of \<open>installed_in_order\<close>. An id the database does not know faults the
  iteration at \<^verbatim>\<open>ASSERT(addr)\<close> with nothing written, and a write primitive that returns
  false faults the iteration of an injectable signature. Nothing is rolled back: when the
  signature after the installed ones has an unknown id, the run ends in exactly the world the
  installed ones left (code bytes and cells), with the failed lookup added to the trace; in
  particular, after one completed installation followed by an unknown id, the bytes of the
  completed patch after its hook still hold 0x90 and its return trampoline still holds the
  return address.
\<close>

theorem C6_abort_at_first_failure:
  "(ApplyGamePatches e sigs w = (Some f, w2) \<longrightarrow>
      (\<exists>xs s ys w1. sigs = xs @ s # ys \<and> installed_in_order e xs w = Some w1
         \<and> ApplyGamePatches e xs w = (None, w1)
         \<and> ApplyGamePatches_body e s w1 = (Some f, w2)
         \<and> lookup_ids (trace w2) = lookup_ids (trace w) @ map cs_id (xs @ [s])
         \<and> (\<exists>evs. trace w1 = trace w @ evs) \<and> (\<exists>evs. trace w2 = trace w1 @ evs)))
   \<and> (ApplyGamePatches e xs' w = (None, w1') \<and> ApplyGamePatches_body e s' w1' = (Some f', w2')
        \<longrightarrow> ApplyGamePatches e (xs' @ s' # ys') w = (Some f', w2'))
   \<and> (ApplyGamePatches e sigs w = (None, w3) \<longrightarrow>
        lookup_ids (trace w3) = lookup_ids (trace w) @ map cs_id sigs
        \<and> installed_in_order e sigs w = Some w3)
   \<and> (FindAddressById e (cs_id s') = 0 \<longrightarrow>
        ApplyGamePatches_body e s' w1' =
          (Some (AssertFailed ''addr''),
           w1'\<lparr>trace := trace w1' @ [EvFindAddressById (cs_id s')]\<rparr>))
   \<and> ((\<forall>k v a t. \<not> fst (write_hook e k v a t))
        \<and> cs_hook_type s' \<noteq> None_t \<and> cs_hook_type s' \<noteq> Nop
        \<longrightarrow> fst (ApplyGamePatches_body e s' w1') \<noteq> None)
   \<and> (installed_in_order e xs' w = Some w1' \<and> ApplyGamePatches_body e s' w1' = (Some f', w2')
        \<longrightarrow> ApplyGamePatches e (xs' @ s' # ys') w = (Some f', w2'))
   \<and> (installed_in_order e xs' w = Some w1' \<and> FindAddressById e (cs_id s') = 0
        \<longrightarrow> ApplyGamePatches e (xs' @ s' # ys') w =
              (Some (AssertFailed ''addr''),
               w1'\<lparr>trace := trace w1' @ [EvFindAddressById (cs_id s')]\<rparr>))
   \<and> (ApplyGamePatches_body e s0 w = (None, w0) \<and> FindAddressById e (cs_id s') = 0
        \<longrightarrow> ApplyGamePatches e (s0 # s' # ys') w =
              (Some (AssertFailed ''addr''),
               w0\<lparr>trace := trace w0 @ [EvFindAddressById (cs_id s')]\<rparr>)
            \<and> (\<exists>h. Size (cs_hook_type s0) = Inr h
                 \<and> (\<forall>a. a - (resolved_address e s0 + h) < cs_patch_size s0 - h \<longrightarrow>
                        code (snd (ApplyGamePatches e (s0 # s' # ys') w)) a = 0x90)
                 \<and> (cs_return_trampoline s0 \<noteq> 0 \<longrightarrow>
                        cells (snd (ApplyGamePatches e (s0 # s' # ys') w)) (cs_return_trampoline s0)
                          = resolved_address e s0 + h)))"
proof (intro conjI impI)
  assume F: "ApplyGamePatches e sigs w = (Some f, w2)"
  from ApplyGamePatches_fault [OF F] obtain xs s ys w1 where
    *: "sigs = xs @ s # ys" "ApplyGamePatches e xs w = (None, w1)"
       "ApplyGamePatches_body e s w1 = (Some f, w2)" by blast
  from *(2) have i: "installed_in_order e xs w = Some w1"
    by (simp add: ApplyGamePatches_installed)
  from ApplyGamePatches_done [OF *(2)] body_lookup [OF *(3)] body_trace_grows [OF *(3)]
  have "lookup_ids (trace w2) = lookup_ids (trace w) @ map cs_id (xs @ [s])
        \<and> (\<exists>evs. trace w1 = trace w @ evs) \<and> (\<exists>evs. trace w2 = trace w1 @ evs)"
    by simp
  with * i show "\<exists>xs s ys w1. sigs = xs @ s # ys \<and> installed_in_order e xs w = Some w1
         \<and> ApplyGamePatches e xs w = (None, w1)
         \<and> ApplyGamePatches_body e s w1 = (Some f, w2)
         \<and> lookup_ids (trace w2) = lookup_ids (trace w) @ map cs_id (xs @ [s])
         \<and> (\<exists>evs. trace w1 = trace w @ evs) \<and> (\<exists>evs. trace w2 = trace w1 @ evs)"
    by blast
next
  assume "ApplyGamePatches e xs' w = (None, w1') \<and> ApplyGamePatches_body e s' w1' = (Some f', w2')"
  then show "ApplyGamePatches e (xs' @ s' # ys') w = (Some f', w2')"
    by (simp add: ApplyGamePatches_abort)
next
  assume "ApplyGamePatches e sigs w = (None, w3)"
  from ApplyGamePatches_done [OF this]
  show "lookup_ids (trace w3) = lookup_ids (trace w) @ map cs_id sigs" by simp
next
  assume "ApplyGamePatches e sigs w = (None, w3)"
  then show "installed_in_order e sigs w = Some w3" by (simp add: ApplyGamePatches_installed)
next
  assume "FindAddressById e (cs_id s') = 0"
  then show "ApplyGamePatches_body e s' w1' =
          (Some (AssertFailed ''addr''),
           w1'\<lparr>trace := trace w1' @ [EvFindAddressById (cs_id s')]\<rparr>)"
    by (rule body_addr_fault)
next
  assume "(\<forall>k v a t. \<not> fst (write_hook e k v a t))
        \<and> cs_hook_type s' \<noteq> None_t \<and> cs_hook_type s' \<noteq> Nop"
  then show "fst (ApplyGamePatches_body e s' w1') \<noteq> None"
    using body_write_fault [of e s' w1'] by blast
next
  assume "installed_in_order e xs' w = Some w1' \<and> ApplyGamePatches_body e s' w1' = (Some f', w2')"
  then show "ApplyGamePatches e (xs' @ s' # ys') w = (Some f', w2')"
    by (simp add: ApplyGamePatches_abort ApplyGamePatches_installed [symmetric])
next
  assume "installed_in_order e xs' w = Some w1' \<and> FindAddressById e (cs_id s') = 0"
  then show "ApplyGamePatches e (xs' @ s' # ys') w =
              (Some (AssertFailed ''addr''),
               w1'\<lparr>trace := trace w1' @ [EvFindAddressById (cs_id s')]\<rparr>)"
    by (simp add: ApplyGamePatches_abort ApplyGamePatches_installed [symmetric] body_addr_fault)
next
  assume A: "ApplyGamePatches_body e s0 w = (None, w0) \<and> FindAddressById e (cs_id s') = 0"
  show "ApplyGamePatches e (s0 # s' # ys') w =
              (Some (AssertFailed ''addr''),
               w0\<lparr>trace := trace w0 @ [EvFindAddressById (cs_id s')]\<rparr>)"
    by (rule ApplyGamePatches_two [OF A [THEN conjunct1] A [THEN conjunct2]])
next
  assume A: "ApplyGamePatches_body e s0 w = (None, w0) \<and> FindAddressById e (cs_id s') = 0"
  have "snd (ApplyGamePatches e (s0 # s' # ys') w) =
      w0\<lparr>trace := trace w0 @ [EvFindAddressById (cs_id s')]\<rparr>"
    by (simp only: ApplyGamePatches_two [OF A [THEN conjunct1] A [THEN conjunct2]] snd_conv)
  with body_window [OF A [THEN conjunct1]]
  show "\<exists>h. Size (cs_hook_type s0) = Inr h
                 \<and> (\<forall>a. a - (resolved_address e s0 + h) < cs_patch_size s0 - h \<longrightarrow>
                        code (snd (ApplyGamePatches e (s0 # s' # ys') w)) a = 0x90)
                 \<and> (cs_return_trampoline s0 \<noteq> 0 \<longrightarrow>
                        cells (snd (ApplyGamePatches e (s0 # s' # ys') w)) (cs_return_trampoline s0)
                          = resolved_address e s0 + h)"
    by simp
qed

theorem C6_abort_at_first_failure_witness:
  "(\<exists>xs s ys w1. [kThePlayer_ObjectSig, kModifyPerkPool_PatchSig, kHideLegendaryButton_PatchSig] = xs @ s # ys
         \<and> installed_in_order bad_env xs w_init = Some w1
         \<and> ApplyGamePatches bad_env xs w_init = (None, w1)
         \<and> ApplyGamePatches_body bad_env s w1 =
             (Some (AssertFailed ''g_branchTrampoline.Write6Branch(real_address, sig->hook)''),
              \<lparr>code = fill (\<lambda>a. 0xCC) 0x5000 0x90 0, cells = (\<lambda>a. 0)(0x9000 := 0x5000),
         trace = [EvFindAddressById 403521, EvStore 0x9000 0x5000, EvSafeMemSet 0x5000 0x90 0,
                  EvFindAddressById 52538, EvWrite Write6Branch 0x1062 0xA000]\<rparr>)
         \<and> lookup_ids (trace
              \<lparr>code = fill (\<lambda>a. 0xCC) 0x5000 0x90 0, cells = (\<lambda>a. 0)(0x9000 := 0x5000),
         trace = [EvFindAddressById 403521, EvStore 0x9000 0x5000, EvSafeMemSet 0x5000 0x90 0,
                  EvFindAddressById 52538, EvWrite Write6Branch 0x1062 0xA000]\<rparr>) =
             lookup_ids (trace w_init) @ map cs_id (xs @ [s])
         \<and> (\<exists>evs. trace w1 = trace w_init @ evs)
         \<and> (\<exists>evs. trace
              \<lparr>code = fill (\<lambda>a. 0xCC) 0x5000 0x90 0, cells = (\<lambda>a. 0)(0x9000 := 0x5000),
         trace = [EvFindAddressById 403521, EvStore 0x9000 0x5000, EvSafeMemSet 0x5000 0x90 0,
                  EvFindAddressById 52538, EvWrite Write6Branch 0x1062 0xA000]\<rparr> =
              trace w1 @ evs))
   \<and> ApplyGamePatches bad_env
        ([kThePlayer_ObjectSig] @ kModifyPerkPool_PatchSig # [kHideLegendaryButton_PatchSig])
        w_init =
       (Some (AssertFailed ''g_branchTrampoline.Write6Branch(real_address, sig->hook)''),
        \<lparr>code = fill (\<lambda>a. 0xCC) 0x5000 0x90 0, cells = (\<lambda>a. 0)(0x9000 := 0x5000),
         trace = [EvFindAddressById 403521, EvStore 0x9000 0x5000, EvSafeMemSet 0x5000 0x90 0,
                  EvFindAddressById 52538, EvWrite Write6Branch 0x1062 0xA000]\<rparr>)
   \<and> lookup_ids (trace (snd (ApplyGamePatches good_env [kThePlayer_ObjectSig, kModifyPerkPool_PatchSig, kHideLegendaryButton_PatchSig] w_init))) =
       lookup_ids (trace w_init) @ map cs_id [kThePlayer_ObjectSig, kModifyPerkPool_PatchSig, kHideLegendaryButton_PatchSig]
   \<and> installed_in_order good_env [kThePlayer_ObjectSig, kModifyPerkPool_PatchSig, kHideLegendaryButton_PatchSig] w_init =
       Some (snd (ApplyGamePatches good_env [kThePlayer_ObjectSig, kModifyPerkPool_PatchSig, kHideLegendaryButton_PatchSig] w_init))
   \<and> ApplyGamePatches_body good_env (CodeSignature_object ''unknown'' 1 0x9000) w_init =
       (Some (AssertFailed ''addr''),
        w_init\<lparr>trace := trace w_init @ [EvFindAddressById (cs_id (CodeSignature_object ''unknown'' 1 0x9000))]\<rparr>)
   \<and> fst (ApplyGamePatches_body bad_env kModifyPerkPool_PatchSig w_init) \<noteq> None
   \<and> ApplyGamePatches good_env (kModifyPerkPool_PatchSig # CodeSignature_object ''unknown'' 1 0x9000 # [kHideLegendaryButton_PatchSig]) w_init =
       (Some (AssertFailed ''addr''),
        \<lparr>code = fill (\<lambda>a. 0xCC) 0x1068 0x90 1, cells = (\<lambda>a. 0),
       trace = [EvFindAddressById 52538, EvWrite Write6Branch 0x1062 0xA000,
                EvSafeMemSet 0x1068 0x90 1]\<rparr>\<lparr>trace := trace \<lparr>code = fill (\<lambda>a. 0xCC) 0x1068 0x90 1, cells = (\<lambda>a. 0),
       trace = [EvFindAddressById 52538, EvWrite Write6Branch 0x1062 0xA000,
                EvSafeMemSet 0x1068 0x90 1]\<rparr> @ [EvFindAddressById (cs_id (CodeSignature_object ''unknown'' 1 0x9000))]\<rparr>)
   \<and> code (snd (ApplyGamePatches good_env (kModifyPerkPool_PatchSig # CodeSignature_object ''unknown'' 1 0x9000 # [kHideLegendaryButton_PatchSig]) w_init)) 0x1068 = 0x90
   \<and> code (snd (ApplyGamePatches good_env (kModifyPerkPool_PatchSig # CodeSignature_object ''unknown'' 1 0x9000 # [kHideLegendaryButton_PatchSig]) w_init)) 0x1069 = 0xCC"
proof -
  have g: "ApplyGamePatches good_env [kThePlayer_ObjectSig, kModifyPerkPool_PatchSig, kHideLegendaryButton_PatchSig] w_init =
      (None, snd (ApplyGamePatches good_env [kThePlayer_ObjectSig, kModifyPerkPool_PatchSig, kHideLegendaryButton_PatchSig] w_init))"
    using example_table_good by (simp add: prod_eq_iff)
  note a = C6_abort_at_first_failure [THEN conjunct1, rule_format, OF example_table_bad]
  note b = C6_abort_at_first_failure [THEN conjunct2, THEN conjunct1, rule_format,
      OF conjI [OF example_table_first example_table_second]]
  note c = C6_abort_at_first_failure [THEN conjunct2, THEN conjunct2, THEN conjunct1, rule_format, OF g]
  note d = C6_abort_at_first_failure [THEN conjunct2, THEN conjunct2, THEN conjunct2, THEN conjunct1, rule_format,
      OF example_unknown_id]
  note e = C6_abort_at_first_failure [THEN conjunct2, THEN conjunct2, THEN conjunct2, THEN conjunct2, THEN conjunct1,
      rule_format, OF example_writers_fail]
  note k = C6_abort_at_first_failure [THEN conjunct2, THEN conjunct2, THEN conjunct2, THEN conjunct2, THEN conjunct2,
      THEN conjunct2, THEN conjunct2, rule_format,
      OF conjI [OF example_body_ModifyPerkPool example_unknown_id], of "[kHideLegendaryButton_PatchSig]"]
  from k obtain h where h: "Size (cs_hook_type kModifyPerkPool_PatchSig) = Inr h"
    and win: "\<And>a. a - (resolved_address good_env kModifyPerkPool_PatchSig + h)
                 < cs_patch_size kModifyPerkPool_PatchSig - h \<Longrightarrow>
               code (snd (ApplyGamePatches good_env (kModifyPerkPool_PatchSig # CodeSignature_object ''unknown'' 1 0x9000 # [kHideLegendaryButton_PatchSig]) w_init)) a = 0x90"
    by blast
  from h have h6: "h = 6" by (simp add: example_defs)
  have nop: "code (snd (ApplyGamePatches good_env (kModifyPerkPool_PatchSig # CodeSignature_object ''unknown'' 1 0x9000 # [kHideLegendaryButton_PatchSig]) w_init)) 0x1068 = 0x90"
    by (rule win) (simp add: h6 resolved_address_def example_defs)
  have old: "code (snd (ApplyGamePatches good_env (kModifyPerkPool_PatchSig # CodeSignature_object ''unknown'' 1 0x9000 # [kHideLegendaryButton_PatchSig]) w_init)) 0x1069 = 0xCC"
    by (subst example_table_kept) (simp add: fill_def)
  from a b c [THEN conjunct1] c [THEN conjunct2] d e k [THEN conjunct1] nop old
  show ?thesis by (intro conjI)
qed

end
